theory Spec2Isabelle
  imports Complex_Main
begin

section \<open>Data model\<close>

text \<open>
  The market module (\<^verbatim>\<open>core/markets.ts\<close>) and the alert module (\<^verbatim>\<open>core/alerts.ts\<close>)
  of the Smaira agent. A JavaScript \<^verbatim>\<open>number\<close> is a binary64 floating-point number.
  \<^verbatim>\<open>fetchMarketData\<close> replaces every missing or \<^verbatim>\<open>NaN\<close> figure by \<^verbatim>\<open>0\<close>
  (\<^verbatim>\<open>t.starknet?.usd || 0\<close>), so the records the two modules work on hold finite
  numbers; a finite number is modelled by the \<^typ>\<open>real\<close> it denotes. Comparisons and
  \<^verbatim>\<open>Math.abs\<close> are exact on such numbers. Arithmetic is not: a sum, a difference, a
  product or a quotient is rounded to binary64, so the model takes the four operations
  from the runtime and fixes nothing about how they round. A \<^verbatim>\<open>Date\<close> is a number of
  milliseconds.
\<close>

record TokenMarketData =
  symbol :: string
  name :: string
  address :: string
  priceUsd :: real
  marketCap :: "real option"
  volume24h :: real
  priceChange24h :: real
  liquidity :: "real option"
  verified :: bool
  lastUpdated :: nat

record MarketSnapshot =
  snapTimestamp :: nat
  snapNetwork :: string
  tokenCount :: nat
  totalVolume24h :: real
  topByVolume :: "TokenMarketData list"
  topGainers :: "TokenMarketData list"
  topLosers :: "TokenMarketData list"
  snapWatchlist :: "TokenMarketData list"

text \<open>\<^verbatim>\<open>SmairaConfig\<close>, the fields the two modules read.\<close>

record SmairaConfig =
  network :: string
  watchlist :: "string list"
  alertsPriceChangeThreshold :: real
  alertsVolumeSpikeThreshold :: real

text \<open>\<^verbatim>\<open>Partial<AlertConfig>\<close>, the optional argument of \<^verbatim>\<open>checkAlerts\<close>.\<close>

record PartialAlertConfig =
  optPriceChangeThreshold :: "real option"
  optVolumeSpikeThreshold :: "real option"
  optWatchlist :: "string list option"

record AlertConfig =
  priceChangeThreshold :: real
  volumeSpikeThreshold :: real
  alertWatchlist :: "string list option"

datatype AlertType = price_surge | price_drop | volume_spike | new_token

datatype Severity = low | medium | high

record Alert =
  alertType :: AlertType
  alertSymbol :: string
  message :: string
  alertValue :: real
  threshold :: real
  timestamp :: nat
  severity :: Severity

record AlertState =
  lastPrices :: "string \<rightharpoonup> real"
  lastVolumes :: "string \<rightharpoonup> real"
  lastCheck :: nat
  knownTokens :: "string set"

text \<open>
  What the functions take from the JavaScript runtime: the clock (\<^verbatim>\<open>new Date()\<close>, read
  as one value during a call), \<^verbatim>\<open>Number.prototype.toFixed\<close>,
  \<^verbatim>\<open>Date.prototype.toISOString\<close>, and the binary64 operations \<^verbatim>\<open>+\<close>, \<^verbatim>\<open>-\<close>, \<^verbatim>\<open>*\<close> and
  \<^verbatim>\<open>/\<close> on numbers: \<open>numAdd rt x y\<close> is the number that \<^verbatim>\<open>x + y\<close> evaluates to. The
  model covers the runs in which these results are finite.
\<close>

record Runtime =
  now :: nat
  toFixed :: "real \<Rightarrow> nat \<Rightarrow> string"
  toISOString :: "nat \<Rightarrow> string"
  numAdd :: "real \<Rightarrow> real \<Rightarrow> real"
  numSub :: "real \<Rightarrow> real \<Rightarrow> real"
  numMul :: "real \<Rightarrow> real \<Rightarrow> real"
  numDiv :: "real \<Rightarrow> real \<Rightarrow> real"

section \<open>Strings and arrays of the runtime\<close>

text \<open>
  \<^verbatim>\<open>String.prototype.toUpperCase\<close> on ASCII text: the letters \<open>a\<close> to \<open>z\<close> are mapped and
  every other character is kept. The case mapping of characters beyond ASCII is outside
  the model; only the scenarios, whose symbols are ASCII, unfold this definition.
\<close>

definition toUpperChar :: "char \<Rightarrow> char" where
  "toUpperChar c =
     (case map_of (zip ''abcdefghijklmnopqrstuvwxyz'' ''ABCDEFGHIJKLMNOPQRSTUVWXYZ'') c of
        Some u \<Rightarrow> u
      | None \<Rightarrow> c)"

definition toUpperCase :: "string \<Rightarrow> string" where
  "toUpperCase s = map toUpperChar s"

text \<open>\<^verbatim>\<open>Array.prototype.join\<close>.\<close>

fun join :: "string \<Rightarrow> string list \<Rightarrow> string" where
  "join sep [] = []"
| "join sep [x] = x"
| "join sep (x # y # ys) = x @ sep @ join sep (y # ys)"

text \<open>
  \<^verbatim>\<open>Array.prototype.sort\<close> with a comparator: the sort is stable, and an element goes
  before another when the comparator is negative. Insertion from the right end keeps
  equal elements in their input order.
\<close>

fun insortCmp :: "('a \<Rightarrow> 'a \<Rightarrow> real) \<Rightarrow> 'a \<Rightarrow> 'a list \<Rightarrow> 'a list" where
  "insortCmp cmp x [] = [x]"
| "insortCmp cmp x (y # ys) =
     (if cmp x y \<le> 0 then x # y # ys else y # insortCmp cmp x ys)"

definition sortCmp :: "('a \<Rightarrow> 'a \<Rightarrow> real) \<Rightarrow> 'a list \<Rightarrow> 'a list" where
  "sortCmp cmp xs = foldr (insortCmp cmp) xs []"

section \<open>Market snapshot (\<^verbatim>\<open>core/markets.ts\<close>)\<close>

text \<open>
  The comparators of the three sorts are read for their sign only, and the sign of a
  binary64 difference of two finite numbers is the sign of their exact difference; the
  total is accumulated by the runtime's addition, from \<^verbatim>\<open>0\<close>, in the order of the list.
\<close>

definition getMarketSnapshot :: "Runtime \<Rightarrow> SmairaConfig \<Rightarrow> TokenMarketData list \<Rightarrow> MarketSnapshot" where
  "getMarketSnapshot rt config allTokens =
     (let activeTokens = filter (\<lambda>t. volume24h t > 0) allTokens;
          byVolume = sortCmp (\<lambda>a b. volume24h b - volume24h a) activeTokens;
          byGain = sortCmp (\<lambda>a b. priceChange24h b - priceChange24h a)
                     (filter (\<lambda>t. priceChange24h t > 0) activeTokens);
          byLoss = sortCmp (\<lambda>a b. priceChange24h a - priceChange24h b)
                     (filter (\<lambda>t. priceChange24h t < 0) activeTokens);
          watchlistTokens = filter (\<lambda>t. toUpperCase (symbol t) \<in> set (watchlist config)) allTokens;
          totalVolume = foldl (\<lambda>sum t. numAdd rt sum (volume24h t)) 0 activeTokens
      in \<lparr> snapTimestamp = now rt,
           snapNetwork = network config,
           tokenCount = length allTokens,
           totalVolume24h = totalVolume,
           topByVolume = take 20 byVolume,
           topGainers = take 10 byGain,
           topLosers = take 10 byLoss,
           snapWatchlist = watchlistTokens \<rparr>)"

text \<open>
  \<^verbatim>\<open>getTokenPrice\<close>: \<^verbatim>\<open>token?.priceUsd || null\<close> is \<^verbatim>\<open>null\<close> when no token is found
  and when the price found is \<^verbatim>\<open>0\<close>.
\<close>

definition getTokenPrice :: "string \<Rightarrow> TokenMarketData list \<Rightarrow> real option" where
  "getTokenPrice symb allTokens =
     (case find (\<lambda>t. toUpperCase (symbol t) = toUpperCase symb) allTokens of
        None \<Rightarrow> None
      | Some token \<Rightarrow> (if priceUsd token = 0 then None else Some (priceUsd token)))"

section \<open>Alert detection (\<^verbatim>\<open>core/alerts.ts\<close>)\<close>

text \<open>The configuration in force: an argument given overrides the default (\<^verbatim>\<open>??\<close>).\<close>

definition alertConfigOf :: "SmairaConfig \<Rightarrow> PartialAlertConfig option \<Rightarrow> AlertConfig" where
  "alertConfigOf defaultConfig config =
     \<lparr> priceChangeThreshold =
         (case Option.bind config optPriceChangeThreshold of
            Some v \<Rightarrow> v | None \<Rightarrow> alertsPriceChangeThreshold defaultConfig),
       volumeSpikeThreshold =
         (case Option.bind config optVolumeSpikeThreshold of
            Some v \<Rightarrow> v | None \<Rightarrow> alertsVolumeSpikeThreshold defaultConfig),
       alertWatchlist =
         (case Option.bind config optWatchlist of
            Some w \<Rightarrow> Some w | None \<Rightarrow> Some (watchlist defaultConfig)) \<rparr>"

text \<open>The guard at the head of the loop body: the token is skipped (\<^verbatim>\<open>continue\<close>).\<close>

definition skipped :: "AlertConfig \<Rightarrow> TokenMarketData \<Rightarrow> bool" where
  "skipped alertConfig token =
     (case alertWatchlist alertConfig of
        None \<Rightarrow> False
      | Some w \<Rightarrow> length w \<noteq> 0 \<and> toUpperCase (symbol token) \<notin> set w)"

definition priceAlerts :: "Runtime \<Rightarrow> AlertConfig \<Rightarrow> TokenMarketData \<Rightarrow> Alert list" where
  "priceAlerts rt alertConfig token =
     (if \<bar>priceChange24h token\<bar> \<ge> priceChangeThreshold alertConfig then
        (let isUp = priceChange24h token > 0 in
         [\<lparr> alertType = (if isUp then price_surge else price_drop),
            alertSymbol = symbol token,
            message = symbol token @ '' '' @ (if isUp then ''surged'' else ''dropped'') @ '' ''
                      @ toFixed rt \<bar>priceChange24h token\<bar> 2 @ ''% in 24h'',
            alertValue = priceChange24h token,
            threshold = priceChangeThreshold alertConfig,
            timestamp = now rt,
            severity = (if \<bar>priceChange24h token\<bar> > 20 then high
                        else if \<bar>priceChange24h token\<bar> > 10 then medium else low) \<rparr>])
      else [])"

text \<open>
  \<^verbatim>\<open>if (lastVolume && lastVolume > 0)\<close>: a missing entry and \<^verbatim>\<open>0\<close> are both falsy.
\<close>

definition volumeAlerts :: "Runtime \<Rightarrow> AlertConfig \<Rightarrow> AlertState \<Rightarrow> TokenMarketData \<Rightarrow> Alert list" where
  "volumeAlerts rt alertConfig state token =
     (case lastVolumes state (address token) of
        None \<Rightarrow> []
      | Some lastVolume \<Rightarrow>
          (if lastVolume \<noteq> 0 \<and> lastVolume > 0 then
             (let volumeChange =
                    numMul rt (numDiv rt (numSub rt (volume24h token) lastVolume) lastVolume) 100 in
              if volumeChange \<ge> volumeSpikeThreshold alertConfig then
                [\<lparr> alertType = volume_spike,
                   alertSymbol = symbol token,
                   message = symbol token @ '' volume spiked '' @ toFixed rt volumeChange 0 @ ''%'',
                   alertValue = volumeChange,
                   threshold = volumeSpikeThreshold alertConfig,
                   timestamp = now rt,
                   severity = (if volumeChange > 500 then high
                               else if volumeChange > 300 then medium else low) \<rparr>]
              else [])
           else []))"

definition newTokenAlerts :: "Runtime \<Rightarrow> AlertState \<Rightarrow> TokenMarketData \<Rightarrow> Alert list" where
  "newTokenAlerts rt state token =
     (if address token \<notin> knownTokens state \<and> verified token then
        [\<lparr> alertType = new_token,
           alertSymbol = symbol token,
           message = ''New verified token: '' @ symbol token @ '' ('' @ name token @ '')'',
           alertValue = 0,
           threshold = 0,
           timestamp = now rt,
           severity = medium \<rparr>]
      else [])"

definition updateState :: "AlertState \<Rightarrow> TokenMarketData \<Rightarrow> AlertState" where
  "updateState state token =
     state\<lparr> lastPrices := (lastPrices state)(address token \<mapsto> priceUsd token),
            lastVolumes := (lastVolumes state)(address token \<mapsto> volume24h token),
            knownTokens := insert (address token) (knownTokens state) \<rparr>"

text \<open>The alerts one token pushes, in the order of the loop body.\<close>

definition tokenAlerts :: "Runtime \<Rightarrow> AlertConfig \<Rightarrow> AlertState \<Rightarrow> TokenMarketData \<Rightarrow> Alert list" where
  "tokenAlerts rt alertConfig state token =
     priceAlerts rt alertConfig token
       @ volumeAlerts rt alertConfig state token
       @ newTokenAlerts rt state token"

text \<open>One pass of the loop body, on the alerts pushed so far and the module's state.\<close>

definition checkToken ::
  "Runtime \<Rightarrow> AlertConfig \<Rightarrow> Alert list \<times> AlertState \<Rightarrow> TokenMarketData \<Rightarrow> Alert list \<times> AlertState" where
  "checkToken rt alertConfig acc token =
     (case acc of (alerts, state) \<Rightarrow>
        if skipped alertConfig token then (alerts, state)
        else (alerts @ tokenAlerts rt alertConfig state token, updateState state token))"

text \<open>
  \<^verbatim>\<open>checkAlerts\<close>, with the tokens fetched and the module's state as arguments; it
  returns the alerts and the state it leaves.
\<close>

definition checkAlerts ::
  "Runtime \<Rightarrow> SmairaConfig \<Rightarrow> PartialAlertConfig option \<Rightarrow> TokenMarketData list \<Rightarrow> AlertState
     \<Rightarrow> Alert list \<times> AlertState" where
  "checkAlerts rt defaultConfig config tokens state0 =
     (case foldl (checkToken rt (alertConfigOf defaultConfig config)) ([], state0) tokens of
        (alerts, state) \<Rightarrow> (alerts, state\<lparr> lastCheck := now rt \<rparr>))"

definition resetAlertState :: "Runtime \<Rightarrow> AlertState" where
  "resetAlertState rt =
     \<lparr> lastPrices = Map.empty, lastVolumes = Map.empty, lastCheck = now rt, knownTokens = {} \<rparr>"

section \<open>Alert report (\<^verbatim>\<open>formatAlerts\<close>)\<close>

text \<open>The fixed lines of the report; the pictographs are their UTF-8 bytes.\<close>

definition titleLine :: string where
  "titleLine = ''# '' @ [CHR 0xF0, CHR 0x9F, CHR 0x9A, CHR 0xA8] @ '' Smaira Alerts''"

definition surgesHeader :: string where
  "surgesHeader = ''## '' @ [CHR 0xF0, CHR 0x9F, CHR 0x93, CHR 0x88] @ '' Price Surges''"

definition dropsHeader :: string where
  "dropsHeader = ''## '' @ [CHR 0xF0, CHR 0x9F, CHR 0x93, CHR 0x89] @ '' Price Drops''"

definition spikesHeader :: string where
  "spikesHeader = ''## '' @ [CHR 0xF0, CHR 0x9F, CHR 0x93, CHR 0x8A] @ '' Volume Spikes''"

definition newTokensHeader :: string where
  "newTokensHeader = ''## '' @ [CHR 0xF0, CHR 0x9F, CHR 0x86, CHR 0x95] @ '' New Tokens''"

definition blankLine :: string where
  "blankLine = []"

definition surgeLine :: "Runtime \<Rightarrow> Alert \<Rightarrow> string" where
  "surgeLine rt a = ''- **'' @ alertSymbol a @ ''**: +'' @ toFixed rt (alertValue a) 2 @ ''%''"

definition dropLine :: "Runtime \<Rightarrow> Alert \<Rightarrow> string" where
  "dropLine rt a = ''- **'' @ alertSymbol a @ ''**: '' @ toFixed rt (alertValue a) 2 @ ''%''"

definition spikeLine :: "Runtime \<Rightarrow> Alert \<Rightarrow> string" where
  "spikeLine rt a = ''- **'' @ alertSymbol a @ ''**: +'' @ toFixed rt (alertValue a) 0 @ ''% volume''"

definition newTokenLine :: "Alert \<Rightarrow> string" where
  "newTokenLine a = ''- '' @ message a"

text \<open>
  The grouping loop: \<^verbatim>\<open>if (!byType[alert.type]) byType[alert.type] = [];
  byType[alert.type].push(alert)\<close>.
\<close>

definition pushByType :: "(AlertType \<rightharpoonup> Alert list) \<Rightarrow> Alert \<Rightarrow> (AlertType \<rightharpoonup> Alert list)" where
  "pushByType byType alert =
     (case byType (alertType alert) of
        None \<Rightarrow> byType(alertType alert \<mapsto> [] @ [alert])
      | Some g \<Rightarrow> byType(alertType alert \<mapsto> g @ [alert]))"

text \<open>\<^verbatim>\<open>byType.price_surge?.length\<close> and its siblings: the group exists and is not empty.\<close>

definition hasLength :: "Alert list option \<Rightarrow> bool" where
  "hasLength g = (case g of None \<Rightarrow> False | Some xs \<Rightarrow> length xs \<noteq> 0)"

text \<open>The group read inside a branch that \<open>hasLength\<close> guards.\<close>

definition groupOf :: "Alert list option \<Rightarrow> Alert list" where
  "groupOf g = (case g of None \<Rightarrow> [] | Some xs \<Rightarrow> xs)"

text \<open>The array \<^verbatim>\<open>lines\<close> of a report on at least one alert, as it stands before the join.\<close>

definition alertLines :: "Runtime \<Rightarrow> Alert list \<Rightarrow> string list" where
  "alertLines rt alerts =
     (let lines0 = [titleLine, blankLine, ''Generated: '' @ toISOString rt (now rt), blankLine];
          byType = foldl pushByType Map.empty alerts;
          lines1 = (if hasLength (byType price_surge)
                    then lines0 @ [surgesHeader]
                           @ map (surgeLine rt) (groupOf (byType price_surge)) @ [blankLine]
                    else lines0);
          lines2 = (if hasLength (byType price_drop)
                    then lines1 @ [dropsHeader]
                           @ map (dropLine rt) (groupOf (byType price_drop)) @ [blankLine]
                    else lines1);
          lines3 = (if hasLength (byType volume_spike)
                    then lines2 @ [spikesHeader]
                           @ map (spikeLine rt) (groupOf (byType volume_spike)) @ [blankLine]
                    else lines2);
          lines4 = (if hasLength (byType new_token)
                    then lines3 @ [newTokensHeader]
                           @ map newTokenLine (groupOf (byType new_token)) @ [blankLine]
                    else lines3)
      in lines4)"

definition formatAlerts :: "Runtime \<Rightarrow> Alert list \<Rightarrow> string" where
  "formatAlerts rt alerts =
     (if length alerts = 0 then ''No active alerts.''
      else join [CHR 0x0A] (alertLines rt alerts))"

section \<open>Notions of the specification\<close>

text \<open>The records a detection call processes: those the watchlist guard does not skip.\<close>

definition processed :: "AlertConfig \<Rightarrow> TokenMarketData list \<Rightarrow> TokenMarketData list" where
  "processed alertConfig tokens = filter (\<lambda>t. \<not> skipped alertConfig t) tokens"

text \<open>
  The volume change of the specification: with \<open>prev\<close> the volume recorded for the
  address, and only when \<open>prev\<close> exists and is positive, the number that
  \<^verbatim>\<open>(volume24h - prev) / prev * 100\<close> evaluates to in the runtime's arithmetic.
\<close>

definition volumeChangeOf :: "Runtime \<Rightarrow> AlertState \<Rightarrow> TokenMarketData \<Rightarrow> real option" where
  "volumeChangeOf rt state token =
     (case lastVolumes state (address token) of
        None \<Rightarrow> None
      | Some prev \<Rightarrow>
          (if prev > 0
           then Some (numMul rt (numDiv rt (numSub rt (volume24h token) prev) prev) 100)
           else None))"

text \<open>
  The records of a list that are the first at their address: the address is neither among
  those seen before the list nor borne by an earlier record of the list.
\<close>

fun firstAtAddress :: "string set \<Rightarrow> TokenMarketData list \<Rightarrow> TokenMarketData list" where
  "firstAtAddress seen [] = []"
| "firstAtAddress seen (t # ts) =
     (if address t \<in> seen then firstAtAddress seen ts
      else t # firstAtAddress (insert (address t) seen) ts)"

text \<open>
  The sum of a list of numbers as the runtime accumulates it, from 0 and from the left,
  and the lists on which no addition of that accumulation rounds.
\<close>

definition roundedSum :: "Runtime \<Rightarrow> real list \<Rightarrow> real" where
  "roundedSum rt xs = foldl (numAdd rt) 0 xs"

fun exactFrom :: "Runtime \<Rightarrow> real \<Rightarrow> real list \<Rightarrow> bool" where
  "exactFrom rt s [] = True"
| "exactFrom rt s (x # xs) = (numAdd rt s x = s + x \<and> exactFrom rt (s + x) xs)"

definition isPriceAlert :: "Alert \<Rightarrow> bool" where
  "isPriceAlert a = (alertType a = price_surge \<or> alertType a = price_drop)"

text \<open>
  The report as the specification words it: the alerts of one type, in their order, form a
  group; a group that is not empty is rendered as its header, one bullet for each alert and
  a blank line; the groups come in the display order surge, drop, volume spike, new token.
\<close>

definition alertsOfType :: "AlertType \<Rightarrow> Alert list \<Rightarrow> Alert list" where
  "alertsOfType ty alerts = filter (\<lambda>a. alertType a = ty) alerts"

fun groupHeader :: "AlertType \<Rightarrow> string" where
  "groupHeader price_surge = surgesHeader"
| "groupHeader price_drop = dropsHeader"
| "groupHeader volume_spike = spikesHeader"
| "groupHeader new_token = newTokensHeader"

fun groupBullet :: "Runtime \<Rightarrow> AlertType \<Rightarrow> Alert \<Rightarrow> string" where
  "groupBullet rt price_surge = surgeLine rt"
| "groupBullet rt price_drop = dropLine rt"
| "groupBullet rt volume_spike = spikeLine rt"
| "groupBullet rt new_token = newTokenLine"

definition groupSection :: "Runtime \<Rightarrow> Alert list \<Rightarrow> AlertType \<Rightarrow> string list" where
  "groupSection rt alerts ty =
     (if alertsOfType ty alerts = [] then []
      else groupHeader ty # map (groupBullet rt ty) (alertsOfType ty alerts) @ [blankLine])"

definition displayOrder :: "AlertType list" where
  "displayOrder = [price_surge, price_drop, volume_spike, new_token]"

definition reportPreamble :: "Runtime \<Rightarrow> string list" where
  "reportPreamble rt = [titleLine, blankLine, ''Generated: '' @ toISOString rt (now rt), blankLine]"

text \<open>
  The text of the report, character by character and without reference to the functions
  above: the heading of each type, the bullet of an alert, the section of a type (nothing
  when the list holds no alert of the type; otherwise, each on a line of its own, the
  heading, one bullet for each alert of the type in the order of the list, and a blank
  line), and the whole text.
\<close>

fun reportHeading :: "AlertType \<Rightarrow> string" where
  "reportHeading price_surge = ''## '' @ [CHR 0xF0, CHR 0x9F, CHR 0x93, CHR 0x88] @ '' Price Surges''"
| "reportHeading price_drop = ''## '' @ [CHR 0xF0, CHR 0x9F, CHR 0x93, CHR 0x89] @ '' Price Drops''"
| "reportHeading volume_spike = ''## '' @ [CHR 0xF0, CHR 0x9F, CHR 0x93, CHR 0x8A] @ '' Volume Spikes''"
| "reportHeading new_token = ''## '' @ [CHR 0xF0, CHR 0x9F, CHR 0x86, CHR 0x95] @ '' New Tokens''"

definition reportBullet :: "Runtime \<Rightarrow> Alert \<Rightarrow> string" where
  "reportBullet rt a =
     (case alertType a of
        price_surge \<Rightarrow> ''- **'' @ alertSymbol a @ ''**: +'' @ toFixed rt (alertValue a) 2 @ ''%''
      | price_drop \<Rightarrow> ''- **'' @ alertSymbol a @ ''**: '' @ toFixed rt (alertValue a) 2 @ ''%''
      | volume_spike \<Rightarrow>
          ''- **'' @ alertSymbol a @ ''**: +'' @ toFixed rt (alertValue a) 0 @ ''% volume''
      | new_token \<Rightarrow> ''- '' @ message a)"

definition reportSection :: "Runtime \<Rightarrow> Alert list \<Rightarrow> AlertType \<Rightarrow> string" where
  "reportSection rt alerts ty =
     (if alertsOfType ty alerts = [] then []
      else [CHR 0x0A] @ reportHeading ty
           @ concat (map (\<lambda>a. [CHR 0x0A] @ reportBullet rt a) (alertsOfType ty alerts))
           @ [CHR 0x0A])"

definition reportText :: "Runtime \<Rightarrow> Alert list \<Rightarrow> string" where
  "reportText rt alerts =
     (if alerts = [] then ''No active alerts.''
      else ''# '' @ [CHR 0xF0, CHR 0x9F, CHR 0x9A, CHR 0xA8] @ '' Smaira Alerts''
           @ [CHR 0x0A, CHR 0x0A] @ ''Generated: '' @ toISOString rt (now rt) @ [CHR 0x0A]
           @ reportSection rt alerts price_surge
           @ reportSection rt alerts price_drop
           @ reportSection rt alerts volume_spike
           @ reportSection rt alerts new_token)"

section \<open>Scenarios\<close>

text \<open>
  Rounding to binary64, to the nearest number and to the even one of two nearest: the
  magnitude is scaled by powers of two into the 53-bit range \<open>2^52 \<le> m < 2^53\<close> (or, for a
  subnormal, down to the unit \<open>2^-1074\<close>), rounded to an integer and scaled back. It is
  meant for results below \<open>2^1024\<close>, where binary64 is finite.
\<close>

fun scaleTo53 :: "nat \<Rightarrow> real \<Rightarrow> real \<Rightarrow> int \<Rightarrow> real \<times> real" where
  "scaleTo53 0 m u e = (m, u)"
| "scaleTo53 (Suc n) m u e =
     (if m \<ge> 9007199254740992 then scaleTo53 n (m / 2) (u * 2) (e + 1)
      else if m < 4503599627370496 \<and> e > - 1074 then scaleTo53 n (m * 2) (u / 2) (e - 1)
      else (m, u))"

definition roundTiesEven :: "real \<Rightarrow> int" where
  "roundTiesEven m =
     (let f = \<lfloor>m\<rfloor>; r = m - of_int f
      in if r < 1 / 2 then f else if r > 1 / 2 then f + 1 else if even f then f else f + 1)"

definition binary64 :: "real \<Rightarrow> real" where
  "binary64 x =
     (if x = 0 then 0
      else (case scaleTo53 2200 \<bar>x\<bar> 1 0 of (m, u) \<Rightarrow> sgn x * of_int (roundTiesEven m) * u))"

text \<open>
  A runtime for the scenarios: the clock stands at 0, numbers print as a mark, and each
  operation is the exact one rounded to binary64.
\<close>

definition scenarioRuntime :: Runtime where
  "scenarioRuntime =
     \<lparr> now = 0, toFixed = (\<lambda>x d. ''#''), toISOString = (\<lambda>t. ''T''),
       numAdd = (\<lambda>x y. binary64 (x + y)), numSub = (\<lambda>x y. binary64 (x - y)),
       numMul = (\<lambda>x y. binary64 (x * y)), numDiv = (\<lambda>x y. binary64 (x / y)) \<rparr>"

definition scenarioConfig :: SmairaConfig where
  "scenarioConfig =
     \<lparr> network = ''mainnet'',
       watchlist = [''ETH'', ''STRK'', ''USDC''],
       alertsPriceChangeThreshold = 5,
       alertsVolumeSpikeThreshold = 200 \<rparr>"

definition mkToken :: "string \<Rightarrow> string \<Rightarrow> real \<Rightarrow> real \<Rightarrow> real \<Rightarrow> bool \<Rightarrow> TokenMarketData" where
  "mkToken sy ad price change vol ver =
     \<lparr> symbol = sy, name = sy, address = ad, priceUsd = price, marketCap = None,
       volume24h = vol, priceChange24h = change, liquidity = None, verified = ver,
       lastUpdated = 0 \<rparr>"

text \<open>Scenario A of the specification: three records.\<close>

definition scenarioA :: "TokenMarketData list" where
  "scenarioA =
     [mkToken ''ETH'' ''0x1'' 3000 (62 / 10) 1000000 True,
      mkToken ''STRK'' ''0x2'' (1 / 2) (- 3) 500000 True,
      mkToken ''USDC'' ''0x3'' 1 0 0 False]"

definition emptyState :: AlertState where
  "emptyState = \<lparr> lastPrices = Map.empty, lastVolumes = Map.empty, lastCheck = 0, knownTokens = {} \<rparr>"

text \<open>
  A batch in which two records share the address \<open>0x1\<close> and a third, \<open>DOGE\<close>, is not on
  the watchlist of \<open>scenarioConfig\<close>; a state that holds a volume for \<open>DOGE\<close> only; and an
  argument that switches the watchlist off.
\<close>

definition spikeBatch :: "TokenMarketData list" where
  "spikeBatch =
     [mkToken ''ETH'' ''0x1'' 3000 0 100 True,
      mkToken ''STRK'' ''0x1'' 3000 0 1000 True,
      mkToken ''DOGE'' ''0x2'' 1 25 1000 True]"

definition noWatchlist :: PartialAlertConfig where
  "noWatchlist = \<lparr> optPriceChangeThreshold = None, optVolumeSpikeThreshold = Some 500,
                   optWatchlist = Some [] \<rparr>"

definition spikeState :: AlertState where
  "spikeState = emptyState\<lparr> lastVolumes := [''0x2'' \<mapsto> 100] \<rparr>"

text \<open>
  A record on the watchlist whose volume went from 100 to 157, under a spike threshold of
  57; and three records of volumes \<open>2^53\<close>, 1 and 1.
\<close>

definition roundingConfig :: PartialAlertConfig where
  "roundingConfig = \<lparr> optPriceChangeThreshold = None, optVolumeSpikeThreshold = Some 57,
                      optWatchlist = None \<rparr>"

definition roundingState :: AlertState where
  "roundingState = emptyState\<lparr> lastVolumes := [''0x1'' \<mapsto> 100] \<rparr>"

definition roundingBatch :: "TokenMarketData list" where
  "roundingBatch = [mkToken ''ETH'' ''0x1'' 3000 0 157 True]"

definition largeVolumes :: "TokenMarketData list" where
  "largeVolumes =
     [mkToken ''ETH'' ''0x1'' 3000 0 9007199254740992 True,
      mkToken ''STRK'' ''0x2'' 1 0 1 True,
      mkToken ''USDC'' ''0x3'' 1 0 1 True]"

text \<open>
  A configuration whose watchlist is in lower case, a list of alerts out of display order,
  and a batch of gainers and losers.
\<close>

definition lowerConfig :: SmairaConfig where
  "lowerConfig = scenarioConfig\<lparr> watchlist := [''eth''] \<rparr>"

definition sampleAlerts :: "Alert list" where
  "sampleAlerts =
     [\<lparr> alertType = new_token, alertSymbol = ''ETH'', message = ''New verified token: ETH (Ether)'',
        alertValue = 0, threshold = 0, timestamp = 0, severity = medium \<rparr>,
      \<lparr> alertType = price_drop, alertSymbol = ''STRK'', message = ''STRK dropped #% in 24h'',
        alertValue = - 12, threshold = 5, timestamp = 0, severity = medium \<rparr>]"

definition movers :: "TokenMarketData list" where
  "movers =
     [mkToken ''A'' ''0xa'' 1 2 10 True,
      mkToken ''B'' ''0xb'' 1 (- 4) 10 True,
      mkToken ''C'' ''0xc'' 1 7 10 True,
      mkToken ''D'' ''0xd'' 1 0 10 True,
      mkToken ''E'' ''0xe'' 1 (- 1) 10 True,
      mkToken ''F'' ''0xf'' 1 9 0 True]"

section \<open>The detection loop\<close>

lemma loop_state:
  "snd (foldl (checkToken rt ac) (acc, s) ts) = foldl updateState s (processed ac ts)"
  by (induction ts arbitrary: acc s) (simp_all add: checkToken_def processed_def)

lemma tokenAlerts_cong:
  assumes "lastVolumes s (address t) = lastVolumes s0 (address t)"
    and "address t \<in> knownTokens s \<longleftrightarrow> address t \<in> knownTokens s0"
  shows "tokenAlerts rt ac s t = tokenAlerts rt ac s0 t"
  using assms by (simp add: tokenAlerts_def volumeAlerts_def newTokenAlerts_def)

lemma updateState_other:
  "a \<noteq> address t \<Longrightarrow> lastVolumes (updateState s t) a = lastVolumes s a"
  "a \<noteq> address t \<Longrightarrow> lastPrices (updateState s t) a = lastPrices s a"
  "a \<noteq> address t \<Longrightarrow> a \<in> knownTokens (updateState s t) \<longleftrightarrow> a \<in> knownTokens s"
  by (simp_all add: updateState_def)

lemma updateState_same:
  "lastVolumes (updateState s t) (address t) = Some (volume24h t)"
  "lastPrices (updateState s t) (address t) = Some (priceUsd t)"
  by (simp_all add: updateState_def)

lemma loop_alerts:
  assumes "distinct (map address ts)"
    and "\<forall>t\<in>set ts. lastVolumes s (address t) = lastVolumes s0 (address t)
          \<and> (address t \<in> knownTokens s \<longleftrightarrow> address t \<in> knownTokens s0)"
  shows "fst (foldl (checkToken rt ac) (acc, s) ts)
         = acc @ concat (map (tokenAlerts rt ac s0) (processed ac ts))"
  using assms
proof (induction ts arbitrary: acc s)
  case Nil
  then show ?case by (simp add: processed_def)
next
  case (Cons t ts)
  show ?case
  proof (cases "skipped ac t")
    case True
    with Cons show ?thesis by (simp add: checkToken_def processed_def)
  next
    case False
    have same: "tokenAlerts rt ac s t = tokenAlerts rt ac s0 t"
      using Cons.prems(2) by (intro tokenAlerts_cong) simp_all
    have rest: "\<forall>u\<in>set ts. lastVolumes (updateState s t) (address u) = lastVolumes s0 (address u)
          \<and> (address u \<in> knownTokens (updateState s t) \<longleftrightarrow> address u \<in> knownTokens s0)"
    proof
      fix u assume u: "u \<in> set ts"
      from Cons.prems(1) have "address t \<notin> address ` set ts" by simp
      with u have "address u \<noteq> address t" by (metis imageI)
      with u Cons.prems(2) show "lastVolumes (updateState s t) (address u) = lastVolumes s0 (address u)
          \<and> (address u \<in> knownTokens (updateState s t) \<longleftrightarrow> address u \<in> knownTokens s0)"
        by (simp add: updateState_other)
    qed
    from Cons.prems(1) have d: "distinct (map address ts)" by simp
    have "fst (foldl (checkToken rt ac) (acc, s) (t # ts))
          = fst (foldl (checkToken rt ac) (acc @ tokenAlerts rt ac s t, updateState s t) ts)"
      using False by (simp add: checkToken_def)
    also have "\<dots> = (acc @ tokenAlerts rt ac s t) @ concat (map (tokenAlerts rt ac s0) (processed ac ts))"
      by (rule Cons.IH [OF d rest])
    finally show ?thesis using False same by (simp add: processed_def)
  qed
qed

lemma fold_update_known:
  "knownTokens (foldl updateState s ps) = knownTokens s \<union> address ` set ps"
  by (induction ps arbitrary: s) (auto simp: updateState_def)

lemma fold_update_other:
  "a \<notin> address ` set ps \<Longrightarrow> lastPrices (foldl updateState s ps) a = lastPrices s a
     \<and> lastVolumes (foldl updateState s ps) a = lastVolumes s a"
  by (induction ps arbitrary: s) (auto simp: updateState_def)

lemma fold_update_hit:
  "distinct (map address ps) \<Longrightarrow> t \<in> set ps \<Longrightarrow>
     lastPrices (foldl updateState s ps) (address t) = Some (priceUsd t)
     \<and> lastVolumes (foldl updateState s ps) (address t) = Some (volume24h t)"
proof (induction ps arbitrary: s)
  case Nil
  then show ?case by simp
next
  case (Cons p ps)
  show ?case
  proof (cases "t \<in> set ps")
    case True
    with Cons show ?thesis by simp
  next
    case False
    with Cons.prems have tp: "t = p" by simp
    from Cons.prems(1) have "address p \<notin> address ` set ps" by auto
    then show ?thesis using fold_update_other [of "address p" ps "updateState s p"] tp
      by (simp add: updateState_same)
  qed
qed

lemma distinct_processed:
  "distinct (map address ts) \<Longrightarrow> distinct (map address (processed ac ts))"
  by (simp add: processed_def distinct_map_filter)

lemma checkAlerts_fst:
  "fst (checkAlerts rt d c ts st) = fst (foldl (checkToken rt (alertConfigOf d c)) ([], st) ts)"
  by (simp add: checkAlerts_def split_beta)

lemma checkAlerts_snd:
  "snd (checkAlerts rt d c ts st)
   = (foldl updateState st (processed (alertConfigOf d c) ts))\<lparr> lastCheck := now rt \<rparr>"
  using loop_state [of rt "alertConfigOf d c" "[]" st ts]
  by (simp add: checkAlerts_def split_beta)

lemma checkAlerts_distinct:
  assumes "distinct (map address ts)"
  shows "fst (checkAlerts rt d c ts st)
         = concat (map (tokenAlerts rt (alertConfigOf d c) st) (processed (alertConfigOf d c) ts))"
  using loop_alerts [OF assms, of st st rt "alertConfigOf d c" "[]"]
  by (simp add: checkAlerts_fst)

text \<open>
  C1. In a batch whose addresses are pairwise distinct, the alerts of one call of
  \<^verbatim>\<open>checkAlerts\<close> are those of each processed record computed on the state as it stood
  before the call, in batch order; and the state left by the call is the state before it
  where, for every processed record, \<open>lastPrices\<close> holds its price and \<open>lastVolumes\<close> its
  volume at its address, and its address is in \<open>knownTokens\<close>, whether or not the record
  raised an alert; every other address is as before. The call also sets \<open>lastCheck\<close> to
  the clock.
\<close>

theorem checkAlerts_previous_state:
  assumes "distinct (map address tokens)"
  shows "fst (checkAlerts rt d c tokens st)
           = concat (map (tokenAlerts rt (alertConfigOf d c) st)
                         (processed (alertConfigOf d c) tokens))
       \<and> (\<forall>t\<in>set (processed (alertConfigOf d c) tokens).
            lastPrices (snd (checkAlerts rt d c tokens st)) (address t) = Some (priceUsd t)
          \<and> lastVolumes (snd (checkAlerts rt d c tokens st)) (address t) = Some (volume24h t)
          \<and> address t \<in> knownTokens (snd (checkAlerts rt d c tokens st)))
       \<and> (\<forall>a. a \<notin> address ` set (processed (alertConfigOf d c) tokens) \<longrightarrow>
            lastPrices (snd (checkAlerts rt d c tokens st)) a = lastPrices st a
          \<and> lastVolumes (snd (checkAlerts rt d c tokens st)) a = lastVolumes st a
          \<and> (a \<in> knownTokens (snd (checkAlerts rt d c tokens st)) \<longleftrightarrow> a \<in> knownTokens st))
       \<and> lastCheck (snd (checkAlerts rt d c tokens st)) = now rt"
proof -
  let ?ps = "processed (alertConfigOf d c) tokens"
  have dp: "distinct (map address ?ps)" using assms by (rule distinct_processed)
  have hit: "\<forall>t\<in>set ?ps.
            lastPrices (snd (checkAlerts rt d c tokens st)) (address t) = Some (priceUsd t)
          \<and> lastVolumes (snd (checkAlerts rt d c tokens st)) (address t) = Some (volume24h t)
          \<and> address t \<in> knownTokens (snd (checkAlerts rt d c tokens st))"
    using fold_update_hit [OF dp] by (simp add: checkAlerts_snd fold_update_known)
  have miss: "\<forall>a. a \<notin> address ` set ?ps \<longrightarrow>
            lastPrices (snd (checkAlerts rt d c tokens st)) a = lastPrices st a
          \<and> lastVolumes (snd (checkAlerts rt d c tokens st)) a = lastVolumes st a
          \<and> (a \<in> knownTokens (snd (checkAlerts rt d c tokens st)) \<longleftrightarrow> a \<in> knownTokens st)"
    using fold_update_other by (simp add: checkAlerts_snd fold_update_known)
  have chk: "lastCheck (snd (checkAlerts rt d c tokens st)) = now rt"
    by (simp add: checkAlerts_snd)
  from checkAlerts_distinct [OF assms] hit miss chk show ?thesis by blast
qed

text \<open>The definitions a scenario unfolds.\<close>

lemmas scenario_defs = scenarioA_def mkToken_def scenarioConfig_def scenarioRuntime_def
  emptyState_def alertConfigOf_def processed_def skipped_def toUpperCase_def toUpperChar_def
  tokenAlerts_def priceAlerts_def volumeAlerts_def newTokenAlerts_def

theorem checkAlerts_previous_state_witness:
  "distinct (map address scenarioA)
   \<and> map alertType (fst (checkAlerts scenarioRuntime scenarioConfig None scenarioA emptyState))
       = [price_surge, new_token, new_token]
   \<and> lastVolumes (snd (checkAlerts scenarioRuntime scenarioConfig None scenarioA emptyState)) ''0x3''
       = Some 0
   \<and> lastPrices (snd (checkAlerts scenarioRuntime scenarioConfig None scenarioA emptyState)) ''0x9''
       = None"
proof -
  have d: "distinct (map address scenarioA)" by (simp add: scenarioA_def mkToken_def)
  show ?thesis
    using d checkAlerts_previous_state [OF d, of scenarioRuntime scenarioConfig None emptyState]
    by (simp add: scenario_defs)
qed

section \<open>Alerts by type\<close>

lemma alertType_priceAlerts:
  "a \<in> set (priceAlerts rt ac t) \<Longrightarrow> isPriceAlert a"
  by (auto simp: priceAlerts_def isPriceAlert_def Let_def split: if_splits)

lemma alertType_volumeAlerts:
  "a \<in> set (volumeAlerts rt ac s t) \<Longrightarrow> alertType a = volume_spike"
  by (auto simp: volumeAlerts_def Let_def split: if_splits option.splits)

lemma alertType_newTokenAlerts:
  "a \<in> set (newTokenAlerts rt s t) \<Longrightarrow> alertType a = new_token"
  by (auto simp: newTokenAlerts_def split: if_splits)

lemma filter_all: "(\<And>x. x \<in> set xs \<Longrightarrow> P x) \<Longrightarrow> filter P xs = xs"
  by (induction xs) auto

lemma filter_none: "(\<And>x. x \<in> set xs \<Longrightarrow> \<not> P x) \<Longrightarrow> filter P xs = []"
  by (induction xs) auto

lemma filter_price_tokenAlerts:
  "filter isPriceAlert (tokenAlerts rt ac s t) = priceAlerts rt ac t"
proof -
  have 1: "filter isPriceAlert (priceAlerts rt ac t) = priceAlerts rt ac t"
    by (rule filter_all) (rule alertType_priceAlerts)
  have 2: "filter isPriceAlert (volumeAlerts rt ac s t) = []"
    by (rule filter_none) (auto simp: isPriceAlert_def dest: alertType_volumeAlerts)
  have 3: "filter isPriceAlert (newTokenAlerts rt s t) = []"
    by (rule filter_none) (auto simp: isPriceAlert_def dest: alertType_newTokenAlerts)
  show ?thesis by (simp add: tokenAlerts_def 1 2 3)
qed

lemma filter_volume_tokenAlerts:
  "filter (\<lambda>a. alertType a = volume_spike) (tokenAlerts rt ac s t) = volumeAlerts rt ac s t"
proof -
  have 1: "filter (\<lambda>a. alertType a = volume_spike) (priceAlerts rt ac t) = []"
    by (rule filter_none) (auto simp: isPriceAlert_def dest: alertType_priceAlerts)
  have 2: "filter (\<lambda>a. alertType a = volume_spike) (volumeAlerts rt ac s t) = volumeAlerts rt ac s t"
    by (rule filter_all) (rule alertType_volumeAlerts)
  have 3: "filter (\<lambda>a. alertType a = volume_spike) (newTokenAlerts rt s t) = []"
    by (rule filter_none) (auto dest: alertType_newTokenAlerts)
  show ?thesis by (simp add: tokenAlerts_def 1 2 3)
qed

lemma filter_new_tokenAlerts:
  "filter (\<lambda>a. alertType a = new_token) (tokenAlerts rt ac s t) = newTokenAlerts rt s t"
proof -
  have 1: "filter (\<lambda>a. alertType a = new_token) (priceAlerts rt ac t) = []"
    by (rule filter_none) (auto simp: isPriceAlert_def dest: alertType_priceAlerts)
  have 2: "filter (\<lambda>a. alertType a = new_token) (volumeAlerts rt ac s t) = []"
    by (rule filter_none) (auto dest: alertType_volumeAlerts)
  have 3: "filter (\<lambda>a. alertType a = new_token) (newTokenAlerts rt s t) = newTokenAlerts rt s t"
    by (rule filter_all) (rule alertType_newTokenAlerts)
  show ?thesis by (simp add: tokenAlerts_def 1 2 3)
qed

lemma loop_price:
  "filter isPriceAlert (fst (foldl (checkToken rt ac) (acc, s) ts))
   = filter isPriceAlert acc @ concat (map (priceAlerts rt ac) (processed ac ts))"
  by (induction ts arbitrary: acc s)
     (simp_all add: checkToken_def processed_def filter_price_tokenAlerts)

lemma checkAlerts_price:
  "filter isPriceAlert (fst (checkAlerts rt d c ts st))
   = concat (map (priceAlerts rt (alertConfigOf d c)) (processed (alertConfigOf d c) ts))"
  by (simp add: checkAlerts_fst loop_price)

lemma checkAlerts_volume:
  assumes "distinct (map address ts)"
  shows "filter (\<lambda>a. alertType a = volume_spike) (fst (checkAlerts rt d c ts st))
   = concat (map (volumeAlerts rt (alertConfigOf d c) st) (processed (alertConfigOf d c) ts))"
  by (simp add: checkAlerts_distinct [OF assms] filter_concat comp_def filter_volume_tokenAlerts)

lemma checkAlerts_new:
  assumes "distinct (map address ts)"
  shows "filter (\<lambda>a. alertType a = new_token) (fst (checkAlerts rt d c ts st))
   = concat (map (newTokenAlerts rt st) (processed (alertConfigOf d c) ts))"
  by (simp add: checkAlerts_distinct [OF assms] filter_concat comp_def filter_new_tokenAlerts)

lemma map_concat_map:
  "map f (concat (map g xs)) = concat (map (\<lambda>x. map f (g x)) xs)"
  by (induction xs) simp_all

lemma concat_map_if:
  "concat (map (\<lambda>x. if P x then [f x] else []) xs) = map f (filter P xs)"
  by (induction xs) simp_all

lemma volumeAlerts_view:
  "map (\<lambda>a. (alertSymbol a, alertValue a, threshold a)) (volumeAlerts rt ac st t)
   = (case volumeChangeOf rt st t of
        None \<Rightarrow> []
      | Some ch \<Rightarrow> if ch \<ge> volumeSpikeThreshold ac
                   then [(symbol t, ch, volumeSpikeThreshold ac)] else [])"
  by (simp add: volumeAlerts_def volumeChangeOf_def Let_def split: option.splits)

lemma newTokenAlerts_view:
  "map (\<lambda>a. (alertSymbol a, severity a, alertValue a, threshold a)) (newTokenAlerts rt st t)
   = (if address t \<notin> knownTokens st \<and> verified t then [(symbol t, medium, 0, 0)] else [])"
  by (simp add: newTokenAlerts_def)

lemma priceAlerts_view:
  "map (\<lambda>a. (alertSymbol a, alertValue a)) (priceAlerts rt ac t)
   = (if priceChangeThreshold ac \<le> \<bar>priceChange24h t\<bar> then [(symbol t, priceChange24h t)] else [])"
  by (simp add: priceAlerts_def Let_def)

lemma priceAlerts_bands:
  assumes "a \<in> set (priceAlerts rt ac t)"
  shows "(alertType a = price_surge \<longleftrightarrow> 0 < alertValue a)
       \<and> (alertType a = price_drop \<longleftrightarrow> alertValue a \<le> 0)
       \<and> threshold a = priceChangeThreshold ac
       \<and> (severity a = high \<longleftrightarrow> \<bar>alertValue a\<bar> > 20)
       \<and> (severity a = medium \<longleftrightarrow> 10 < \<bar>alertValue a\<bar> \<and> \<bar>alertValue a\<bar> \<le> 20)
       \<and> (severity a = low \<longleftrightarrow> threshold a \<le> \<bar>alertValue a\<bar> \<and> \<bar>alertValue a\<bar> \<le> 10)"
  using assms by (auto simp: priceAlerts_def Let_def split: if_splits)

section \<open>Binary64 rounding and the origin of alerts\<close>

lemma scaleTo53_numeral:
  "scaleTo53 (numeral k) m u e =
     (if m \<ge> 9007199254740992 then scaleTo53 (pred_numeral k) (m / 2) (u * 2) (e + 1)
      else if m < 4503599627370496 \<and> e > - 1074
           then scaleTo53 (pred_numeral k) (m * 2) (u / 2) (e - 1)
      else (m, u))"
  by (simp add: numeral_eq_Suc)

lemmas rounding_defs = binary64_def roundTiesEven_def scaleTo53_numeral

lemma checkToken_skip:
  "skipped ac t \<Longrightarrow> checkToken rt ac (acc, s) t = (acc, s)"
  by (simp add: checkToken_def)

lemma checkToken_step:
  "\<not> skipped ac t \<Longrightarrow>
     checkToken rt ac (acc, s) t = (acc @ tokenAlerts rt ac s t, updateState s t)"
  by (simp add: checkToken_def)

lemma volumeAlerts_bands:
  assumes "a \<in> set (volumeAlerts rt ac s t)"
  shows "(severity a = high \<longleftrightarrow> alertValue a > 500)
       \<and> (severity a = medium \<longleftrightarrow> 300 < alertValue a \<and> alertValue a \<le> 500)
       \<and> (severity a = low \<longleftrightarrow> alertValue a \<le> 300)"
  using assms by (auto simp: volumeAlerts_def Let_def split: if_splits option.splits)

lemma loop_volume_origin:
  assumes "a \<in> set (fst (foldl (checkToken rt ac) (acc, s) ts))"
    and "alertType a = volume_spike"
  shows "a \<in> set acc \<or> (\<exists>s' t. a \<in> set (volumeAlerts rt ac s' t))"
  using assms(1)
proof (induction ts arbitrary: acc s)
  case Nil
  then show ?case by simp
next
  case (Cons t ts)
  show ?case
  proof (cases "skipped ac t")
    case True
    with Cons show ?thesis by (simp add: checkToken_skip)
  next
    case False
    with Cons.prems have "a \<in> set (fst (foldl (checkToken rt ac)
        (acc @ tokenAlerts rt ac s t, updateState s t) ts))"
      by (simp add: checkToken_step)
    then have "a \<in> set (acc @ tokenAlerts rt ac s t) \<or> (\<exists>s' t. a \<in> set (volumeAlerts rt ac s' t))"
      by (rule Cons.IH)
    moreover have "a \<in> set (volumeAlerts rt ac s t)" if "a \<in> set (tokenAlerts rt ac s t)"
    proof -
      from that assms(2)
      have "a \<in> set (filter (\<lambda>a. alertType a = volume_spike) (tokenAlerts rt ac s t))" by simp
      then show ?thesis by (simp only: filter_volume_tokenAlerts)
    qed
    ultimately show ?thesis by auto
  qed
qed

lemma firstAtAddress_subset:
  "t \<in> set (firstAtAddress seen ps) \<Longrightarrow> t \<in> set ps \<and> address t \<notin> seen"
  by (induction ps arbitrary: seen) (auto split: if_splits)

lemma firstAtAddress_distinct:
  "distinct (map address ps) \<Longrightarrow> firstAtAddress seen ps = filter (\<lambda>t. address t \<notin> seen) ps"
proof (induction ps arbitrary: seen)
  case Nil
  then show ?case by simp
next
  case (Cons p ps)
  from Cons.prems have d: "distinct (map address ps)" and n: "address p \<notin> address ` set ps"
    by simp_all
  have same: "filter (\<lambda>t. address t \<notin> insert (address p) seen) ps
              = filter (\<lambda>t. address t \<notin> seen) ps"
  proof (rule filter_cong [OF refl])
    fix x assume "x \<in> set ps"
    with n have "address x \<noteq> address p" by (metis imageI)
    then show "(address x \<notin> insert (address p) seen) = (address x \<notin> seen)" by simp
  qed
  show ?case
  proof (cases "address p \<in> seen")
    case True
    then show ?thesis by (simp add: Cons.IH [OF d])
  next
    case False
    then have "firstAtAddress seen (p # ps) = p # firstAtAddress (insert (address p) seen) ps"
      by simp
    also have "\<dots> = p # filter (\<lambda>t. address t \<notin> insert (address p) seen) ps"
      by (simp only: Cons.IH [OF d])
    also have "\<dots> = p # filter (\<lambda>t. address t \<notin> seen) ps"
      by (simp only: same)
    also have "\<dots> = filter (\<lambda>t. address t \<notin> seen) (p # ps)"
      using False by simp
    finally show ?thesis .
  qed
qed

lemma loop_new:
  "map (\<lambda>a. (alertSymbol a, severity a, alertValue a, threshold a))
     (filter (\<lambda>a. alertType a = new_token) (fst (foldl (checkToken rt ac) (acc, s) ts)))
   = map (\<lambda>a. (alertSymbol a, severity a, alertValue a, threshold a))
       (filter (\<lambda>a. alertType a = new_token) acc)
     @ map (\<lambda>t. (symbol t, medium, 0, 0))
         (filter verified (firstAtAddress (knownTokens s) (processed ac ts)))"
proof (induction ts arbitrary: acc s)
  case Nil
  then show ?case by (simp add: processed_def)
next
  case (Cons t ts)
  show ?case
  proof (cases "skipped ac t")
    case True
    then show ?thesis using Cons.IH [of acc s] by (simp add: checkToken_skip processed_def)
  next
    case False
    have known: "knownTokens (updateState s t) = insert (address t) (knownTokens s)"
      by (simp add: updateState_def)
    have step: "checkToken rt ac (acc, s) t = (acc @ tokenAlerts rt ac s t, updateState s t)"
      using False by (rule checkToken_step)
    have ps: "processed ac (t # ts) = t # processed ac ts"
      using False by (simp add: processed_def)
    show ?thesis
    proof (cases "address t \<in> knownTokens s")
      case True
      then have "insert (address t) (knownTokens s) = knownTokens s" by (rule insert_absorb)
      with True show ?thesis
        using Cons.IH [of "acc @ tokenAlerts rt ac s t" "updateState s t"]
        by (simp add: step ps known filter_new_tokenAlerts newTokenAlerts_def)
    next
      case False
      then show ?thesis
        using Cons.IH [of "acc @ tokenAlerts rt ac s t" "updateState s t"]
        by (simp add: step ps known filter_new_tokenAlerts newTokenAlerts_def)
    qed
  qed
qed

lemma checkAlerts_new_all:
  "map (\<lambda>a. (alertSymbol a, severity a, alertValue a, threshold a))
     (filter (\<lambda>a. alertType a = new_token) (fst (checkAlerts rt d c ts st)))
   = map (\<lambda>t. (symbol t, medium, 0, 0))
       (filter verified (firstAtAddress (knownTokens st) (processed (alertConfigOf d c) ts)))"
  using loop_new [of rt "alertConfigOf d c" "[]" st ts] by (simp add: checkAlerts_fst)

lemma new_alert_origin:
  assumes "a \<in> set (fst (checkAlerts rt d c ts st))" and "alertType a = new_token"
  shows "\<exists>t\<in>set (processed (alertConfigOf d c) ts).
           alertSymbol a = symbol t \<and> verified t \<and> address t \<notin> knownTokens st"
proof -
  let ?view = "\<lambda>a. (alertSymbol a, severity a, alertValue a, threshold a)"
  from assms have "?view a \<in> set (map ?view
      (filter (\<lambda>a. alertType a = new_token) (fst (checkAlerts rt d c ts st))))"
    by simp
  then obtain t where "t \<in> set (firstAtAddress (knownTokens st) (processed (alertConfigOf d c) ts))"
    and "verified t" and "alertSymbol a = symbol t"
    unfolding checkAlerts_new_all by auto
  then show ?thesis using firstAtAddress_subset by blast
qed

text \<open>
  C2, as amended. In a batch whose addresses are pairwise distinct, the \<open>volume_spike\<close>
  alerts of a call are, in batch order, those of the processed records (the ones the
  watchlist guard does not skip) for whose address the state before the call holds a volume
  \<open>prev > 0\<close> and for which the number that \<^verbatim>\<open>(volume24h - prev) / prev * 100\<close> evaluates
  to, in the runtime's binary64 arithmetic, reaches the spike threshold; each carries the
  record's symbol, that number as its value, and the threshold. So a record whose address
  has no positive volume in the incoming state raises none, whatever its current volume.
\<close>

theorem volume_spike_needs_history:
  assumes "distinct (map address tokens)"
  shows "map (\<lambda>a. (alertSymbol a, alertValue a, threshold a))
           (filter (\<lambda>a. alertType a = volume_spike) (fst (checkAlerts rt d c tokens st)))
         = concat (map (\<lambda>t. case volumeChangeOf rt st t of
                               None \<Rightarrow> []
                             | Some ch \<Rightarrow>
                                 if ch \<ge> volumeSpikeThreshold (alertConfigOf d c)
                                 then [(symbol t, ch, volumeSpikeThreshold (alertConfigOf d c))]
                                 else [])
                       (processed (alertConfigOf d c) tokens))"
  by (simp add: checkAlerts_volume [OF assms] map_concat_map volumeAlerts_view)

text \<open>The definitions a run of the whole call unfolds.\<close>

lemmas scenario_defs2 = scenario_defs spikeBatch_def spikeState_def checkAlerts_def checkToken_def
  updateState_def volumeChangeOf_def rounding_defs

text \<open>
  C2 as stated, for every input batch and with the percentage read as the exact quotient,
  fails in three ways. The incoming state holds no volume for \<open>0x1\<close>, yet the second
  record at \<open>0x1\<close> raises a spike against the volume the first one has just stored.
  \<open>DOGE\<close> has the prior volume 100 and a change of 900 percent, over the threshold of 200,
  yet raises none, because the watchlist guard skips it. And a volume that went from 100
  to 157 has changed by exactly 57 percent, the threshold, yet raises none: in binary64
  the quotient 0.57 and its product with 100 round to a number below 57.
\<close>

theorem volume_spike_counterexample:
  "lastVolumes spikeState ''0x1'' = None
   \<and> lastVolumes spikeState ''0x2'' = Some 100
   \<and> ((1000 :: real) - 100) / 100 * 100 = 900
   \<and> volumeSpikeThreshold (alertConfigOf scenarioConfig None) = 200
   \<and> map (\<lambda>a. (alertSymbol a, alertValue a))
       (filter (\<lambda>a. alertType a = volume_spike)
          (fst (checkAlerts scenarioRuntime scenarioConfig None spikeBatch spikeState)))
     = [(''STRK'', 900)]
   \<and> lastVolumes roundingState ''0x1'' = Some 100
   \<and> ((157 :: real) - 100) / 100 * 100 = 57
   \<and> volumeSpikeThreshold (alertConfigOf scenarioConfig (Some roundingConfig)) = 57
   \<and> filter (\<lambda>a. alertType a = volume_spike)
       (fst (checkAlerts scenarioRuntime scenarioConfig (Some roundingConfig)
               roundingBatch roundingState))
     = []"
  by (simp add: scenario_defs2 roundingConfig_def roundingState_def roundingBatch_def)

text \<open>
  The amended C2 on the batch of \<open>STRK\<close>, new at its address, and \<open>DOGE\<close>, whose volume went
  from 100 to 1000, with the watchlist off and a threshold of 500.
\<close>

theorem volume_spike_needs_history_witness:
  "distinct (map address (tl spikeBatch))
   \<and> map (\<lambda>a. (alertSymbol a, alertValue a, threshold a))
       (filter (\<lambda>a. alertType a = volume_spike)
          (fst (checkAlerts scenarioRuntime scenarioConfig
                  (Some noWatchlist) (tl spikeBatch) spikeState)))
     = [(''DOGE'', 900, 500)]"
proof -
  have d: "distinct (map address (tl spikeBatch))" by (simp add: spikeBatch_def mkToken_def)
  show ?thesis
    using d volume_spike_needs_history [OF d, of scenarioRuntime scenarioConfig
        "Some noWatchlist" spikeState]
    by (simp add: scenario_defs spikeBatch_def spikeState_def volumeChangeOf_def noWatchlist_def
        rounding_defs)
qed

text \<open>
  C3, as amended. For every batch, the \<open>new_token\<close> alerts of a call are, in batch order,
  those of the processed records (the ones the watchlist guard does not skip) that are
  verified and the first of the batch at their address, an address that is not in
  \<open>knownTokens\<close> of the incoming state; each has the record's symbol, severity medium,
  value 0 and threshold 0. In a batch whose addresses are pairwise distinct these are the
  processed records that are verified and whose address the incoming state does not
  know. For every batch, a \<open>new_token\<close> alert is that of a processed, verified record whose
  address the incoming state does not know, so an unverified record raises none; and in a
  second call on the state the first one left, it is that of a record whose address the
  first call did not process.
\<close>

theorem new_token_gating:
  "map (\<lambda>a. (alertSymbol a, severity a, alertValue a, threshold a))
     (filter (\<lambda>a. alertType a = new_token) (fst (checkAlerts rt d c tokens st)))
   = map (\<lambda>t. (symbol t, medium, 0, 0))
       (filter verified
          (firstAtAddress (knownTokens st) (processed (alertConfigOf d c) tokens)))
   \<and> (distinct (map address tokens) \<longrightarrow>
        map (\<lambda>a. (alertSymbol a, severity a, alertValue a, threshold a))
          (filter (\<lambda>a. alertType a = new_token) (fst (checkAlerts rt d c tokens st)))
        = map (\<lambda>t. (symbol t, medium, 0, 0))
            (filter (\<lambda>t. address t \<notin> knownTokens st \<and> verified t)
               (processed (alertConfigOf d c) tokens)))
   \<and> (\<forall>a\<in>set (fst (checkAlerts rt d c tokens st)). alertType a = new_token \<longrightarrow>
        (\<exists>t\<in>set (processed (alertConfigOf d c) tokens).
            alertSymbol a = symbol t \<and> verified t \<and> address t \<notin> knownTokens st))
   \<and> (\<forall>a\<in>set (fst (checkAlerts rt d c2 tokens2 (snd (checkAlerts rt d c tokens st)))).
        alertType a = new_token \<longrightarrow>
        (\<exists>t\<in>set (processed (alertConfigOf d c2) tokens2).
            alertSymbol a = symbol t \<and> verified t \<and> address t \<notin> knownTokens st
          \<and> address t \<notin> address ` set (processed (alertConfigOf d c) tokens)))"
proof -
  let ?view = "\<lambda>a. (alertSymbol a, severity a, alertValue a, threshold a)"
  let ?ps = "processed (alertConfigOf d c) tokens"
  have all: "map ?view (filter (\<lambda>a. alertType a = new_token) (fst (checkAlerts rt d c tokens st)))
   = map (\<lambda>t. (symbol t, medium, 0, 0)) (filter verified (firstAtAddress (knownTokens st) ?ps))"
    by (rule checkAlerts_new_all)
  have dist: "distinct (map address tokens) \<longrightarrow>
        map ?view (filter (\<lambda>a. alertType a = new_token) (fst (checkAlerts rt d c tokens st)))
        = map (\<lambda>t. (symbol t, medium, 0, 0))
            (filter (\<lambda>t. address t \<notin> knownTokens st \<and> verified t) ?ps)"
  proof
    assume "distinct (map address tokens)"
    then have "distinct (map address ?ps)" by (rule distinct_processed)
    then have "firstAtAddress (knownTokens st) ?ps = filter (\<lambda>t. address t \<notin> knownTokens st) ?ps"
      by (rule firstAtAddress_distinct)
    then show "map ?view (filter (\<lambda>a. alertType a = new_token) (fst (checkAlerts rt d c tokens st)))
        = map (\<lambda>t. (symbol t, medium, 0, 0))
            (filter (\<lambda>t. address t \<notin> knownTokens st \<and> verified t) ?ps)"
      by (simp add: all conj_commute)
  qed
  have only: "\<forall>a\<in>set (fst (checkAlerts rt d c tokens st)). alertType a = new_token \<longrightarrow>
        (\<exists>t\<in>set ?ps. alertSymbol a = symbol t \<and> verified t \<and> address t \<notin> knownTokens st)"
    using new_alert_origin by blast
  have known: "knownTokens (snd (checkAlerts rt d c tokens st)) = knownTokens st \<union> address ` set ?ps"
    by (simp add: checkAlerts_snd fold_update_known)
  have again: "\<forall>a\<in>set (fst (checkAlerts rt d c2 tokens2 (snd (checkAlerts rt d c tokens st)))).
        alertType a = new_token \<longrightarrow>
        (\<exists>t\<in>set (processed (alertConfigOf d c2) tokens2).
            alertSymbol a = symbol t \<and> verified t \<and> address t \<notin> knownTokens st
          \<and> address t \<notin> address ` set ?ps)"
  proof (intro ballI impI)
    fix a
    assume "a \<in> set (fst (checkAlerts rt d c2 tokens2 (snd (checkAlerts rt d c tokens st))))"
      and "alertType a = new_token"
    then obtain t where "t \<in> set (processed (alertConfigOf d c2) tokens2)"
      and "alertSymbol a = symbol t" and "verified t"
      and "address t \<notin> knownTokens (snd (checkAlerts rt d c tokens st))"
      using new_alert_origin by blast
    then show "\<exists>t\<in>set (processed (alertConfigOf d c2) tokens2).
            alertSymbol a = symbol t \<and> verified t \<and> address t \<notin> knownTokens st
          \<and> address t \<notin> address ` set ?ps"
      unfolding known by blast
  qed
  show ?thesis by (rule conjI [OF all conjI [OF dist conjI [OF only again]]])
qed

text \<open>
  C3 as stated fails: \<open>STRK\<close> and \<open>DOGE\<close> are verified and their addresses are absent from
  the incoming state, yet only \<open>ETH\<close> raises \<open>new_token\<close>: \<open>STRK\<close> shares the address the
  loop has just stored for \<open>ETH\<close>, and the watchlist guard skips \<open>DOGE\<close>.
\<close>

theorem new_token_counterexample:
  "address (mkToken ''STRK'' ''0x1'' 3000 0 1000 True) \<notin> knownTokens spikeState
   \<and> verified (mkToken ''STRK'' ''0x1'' 3000 0 1000 True)
   \<and> address (mkToken ''DOGE'' ''0x2'' 1 25 1000 True) \<notin> knownTokens spikeState
   \<and> verified (mkToken ''DOGE'' ''0x2'' 1 25 1000 True)
   \<and> map alertSymbol
       (filter (\<lambda>a. alertType a = new_token)
          (fst (checkAlerts scenarioRuntime scenarioConfig None spikeBatch spikeState)))
     = [''ETH'']"
  by (simp add: scenario_defs2)

text \<open>
  The amended C3 on the batch with two records at \<open>0x1\<close>, with the watchlist off: only the
  first of the two and \<open>DOGE\<close> raise \<open>new_token\<close>; on scenario A from the empty state,
  whose addresses are distinct and whose unverified \<open>USDC\<close> raises none; and on a second
  call at the addresses \<open>0x1\<close> and \<open>0x2\<close> that the call on scenario A processed.
\<close>

theorem new_token_gating_witness:
  "map (\<lambda>a. (alertSymbol a, severity a, alertValue a, threshold a))
     (filter (\<lambda>a. alertType a = new_token)
        (fst (checkAlerts scenarioRuntime scenarioConfig (Some noWatchlist) spikeBatch emptyState)))
   = [(''ETH'', medium, 0, 0), (''DOGE'', medium, 0, 0)]
   \<and> distinct (map address scenarioA)
   \<and> map (\<lambda>a. (alertSymbol a, severity a, alertValue a, threshold a))
       (filter (\<lambda>a. alertType a = new_token)
          (fst (checkAlerts scenarioRuntime scenarioConfig None scenarioA emptyState)))
     = [(''ETH'', medium, 0, 0), (''STRK'', medium, 0, 0)]
   \<and> filter (\<lambda>a. alertType a = new_token)
       (fst (checkAlerts scenarioRuntime scenarioConfig (Some noWatchlist) (tl spikeBatch)
               (snd (checkAlerts scenarioRuntime scenarioConfig None scenarioA emptyState))))
     = []"
proof -
  have d: "distinct (map address scenarioA)" by (simp add: scenarioA_def mkToken_def)
  have three: "filter (\<lambda>a. alertType a = new_token)
       (fst (checkAlerts scenarioRuntime scenarioConfig (Some noWatchlist) (tl spikeBatch)
               (snd (checkAlerts scenarioRuntime scenarioConfig None scenarioA emptyState))))
     = []"
  proof -
    have "alertType a \<noteq> new_token"
      if "a \<in> set (fst (checkAlerts scenarioRuntime scenarioConfig (Some noWatchlist)
               (tl spikeBatch)
               (snd (checkAlerts scenarioRuntime scenarioConfig None scenarioA emptyState))))"
      for a
      using that new_token_gating [of scenarioRuntime scenarioConfig None scenarioA emptyState
          "Some noWatchlist" "tl spikeBatch"]
      by (auto simp: scenario_defs spikeBatch_def noWatchlist_def)
    then show ?thesis by (simp add: filter_empty_conv)
  qed
  have one: "map (\<lambda>a. (alertSymbol a, severity a, alertValue a, threshold a))
     (filter (\<lambda>a. alertType a = new_token)
        (fst (checkAlerts scenarioRuntime scenarioConfig (Some noWatchlist) spikeBatch emptyState)))
   = [(''ETH'', medium, 0, 0), (''DOGE'', medium, 0, 0)]"
    using new_token_gating [of scenarioRuntime scenarioConfig "Some noWatchlist" spikeBatch
        emptyState None "[]"]
    by (simp add: scenario_defs spikeBatch_def noWatchlist_def)
  have two: "map (\<lambda>a. (alertSymbol a, severity a, alertValue a, threshold a))
       (filter (\<lambda>a. alertType a = new_token)
          (fst (checkAlerts scenarioRuntime scenarioConfig None scenarioA emptyState)))
     = [(''ETH'', medium, 0, 0), (''STRK'', medium, 0, 0)]"
    using d new_token_gating [of scenarioRuntime scenarioConfig None scenarioA emptyState None "[]"]
    by (simp add: scenario_defs)
  from one d two three show ?thesis by blast
qed

text \<open>
  C4, as amended. The price alerts of a call are, in batch order, those of the processed
  records (the ones the watchlist guard does not skip) with
  \<open>abs(priceChange24h) >= priceChangeThreshold\<close>, each carrying the change as its value.
  Every price alert is a \<open>price_surge\<close> when its value is positive and a \<open>price_drop\<close>
  otherwise; its severity is high iff \<open>abs(value) > 20\<close>, medium iff
  \<open>10 < abs(value) <= 20\<close>, and low iff \<open>threshold <= abs(value) <= 10\<close>.
\<close>

theorem price_alert_severity:
  "map (\<lambda>a. (alertSymbol a, alertValue a))
     (filter isPriceAlert (fst (checkAlerts rt d c tokens st)))
   = map (\<lambda>t. (symbol t, priceChange24h t))
       (filter (\<lambda>t. priceChangeThreshold (alertConfigOf d c) \<le> \<bar>priceChange24h t\<bar>)
          (processed (alertConfigOf d c) tokens))
   \<and> (\<forall>a\<in>set (fst (checkAlerts rt d c tokens st)). isPriceAlert a \<longrightarrow>
         (alertType a = price_surge \<longleftrightarrow> 0 < alertValue a)
       \<and> (alertType a = price_drop \<longleftrightarrow> alertValue a \<le> 0)
       \<and> threshold a = priceChangeThreshold (alertConfigOf d c)
       \<and> (severity a = high \<longleftrightarrow> \<bar>alertValue a\<bar> > 20)
       \<and> (severity a = medium \<longleftrightarrow> 10 < \<bar>alertValue a\<bar> \<and> \<bar>alertValue a\<bar> \<le> 20)
       \<and> (severity a = low \<longleftrightarrow> threshold a \<le> \<bar>alertValue a\<bar> \<and> \<bar>alertValue a\<bar> \<le> 10))"
proof -
  have emitted: "map (\<lambda>a. (alertSymbol a, alertValue a))
     (filter isPriceAlert (fst (checkAlerts rt d c tokens st)))
   = map (\<lambda>t. (symbol t, priceChange24h t))
       (filter (\<lambda>t. priceChangeThreshold (alertConfigOf d c) \<le> \<bar>priceChange24h t\<bar>)
          (processed (alertConfigOf d c) tokens))"
    by (simp add: checkAlerts_price map_concat_map priceAlerts_view concat_map_if)
  have bands: "\<forall>a\<in>set (fst (checkAlerts rt d c tokens st)). isPriceAlert a \<longrightarrow>
         (alertType a = price_surge \<longleftrightarrow> 0 < alertValue a)
       \<and> (alertType a = price_drop \<longleftrightarrow> alertValue a \<le> 0)
       \<and> threshold a = priceChangeThreshold (alertConfigOf d c)
       \<and> (severity a = high \<longleftrightarrow> \<bar>alertValue a\<bar> > 20)
       \<and> (severity a = medium \<longleftrightarrow> 10 < \<bar>alertValue a\<bar> \<and> \<bar>alertValue a\<bar> \<le> 20)
       \<and> (severity a = low \<longleftrightarrow> threshold a \<le> \<bar>alertValue a\<bar> \<and> \<bar>alertValue a\<bar> \<le> 10)"
  proof (intro ballI impI)
    fix a assume "a \<in> set (fst (checkAlerts rt d c tokens st))" and "isPriceAlert a"
    then have "a \<in> set (filter isPriceAlert (fst (checkAlerts rt d c tokens st)))" by simp
    then obtain t where "a \<in> set (priceAlerts rt (alertConfigOf d c) t)"
      by (auto simp: checkAlerts_price)
    then show "(alertType a = price_surge \<longleftrightarrow> 0 < alertValue a)
       \<and> (alertType a = price_drop \<longleftrightarrow> alertValue a \<le> 0)
       \<and> threshold a = priceChangeThreshold (alertConfigOf d c)
       \<and> (severity a = high \<longleftrightarrow> \<bar>alertValue a\<bar> > 20)
       \<and> (severity a = medium \<longleftrightarrow> 10 < \<bar>alertValue a\<bar> \<and> \<bar>alertValue a\<bar> \<le> 20)
       \<and> (severity a = low \<longleftrightarrow> threshold a \<le> \<bar>alertValue a\<bar> \<and> \<bar>alertValue a\<bar> \<le> 10)"
      by (rule priceAlerts_bands)
  qed
  from emitted bands show ?thesis by blast
qed

text \<open>
  C4 as stated fails in its condition of emission: \<open>DOGE\<close> moved by 25 percent, over the
  threshold of 5, and raises no price alert, because the watchlist guard skips it.
\<close>

theorem price_alert_counterexample:
  "priceChangeThreshold (alertConfigOf scenarioConfig None)
     \<le> \<bar>priceChange24h (mkToken ''DOGE'' ''0x2'' 1 25 1000 True)\<bar>
   \<and> filter isPriceAlert
       (fst (checkAlerts scenarioRuntime scenarioConfig None
               [mkToken ''DOGE'' ''0x2'' 1 25 1000 True] emptyState))
     = []"
  by (simp add: scenario_defs2)

text \<open>
  The amended C4 on scenario A: one price alert, the surge of \<open>ETH\<close> by 6.2 percent, of low
  severity.
\<close>

theorem price_alert_severity_witness:
  "map (\<lambda>a. (alertType a, alertSymbol a, alertValue a, severity a))
     (filter isPriceAlert (fst (checkAlerts scenarioRuntime scenarioConfig None scenarioA emptyState)))
   = [(price_surge, ''ETH'', 62 / 10, low)]"
proof -
  have "map (\<lambda>a. (alertSymbol a, alertValue a))
     (filter isPriceAlert (fst (checkAlerts scenarioRuntime scenarioConfig None scenarioA emptyState)))
   = [(''ETH'', 62 / 10)]"
    using price_alert_severity [of scenarioRuntime scenarioConfig None scenarioA emptyState]
    by (simp add: scenario_defs)
  then obtain a where a: "filter isPriceAlert
      (fst (checkAlerts scenarioRuntime scenarioConfig None scenarioA emptyState)) = [a]"
    and v: "alertSymbol a = ''ETH''" "alertValue a = 62 / 10"
    by auto
  from a have "a \<in> set (filter isPriceAlert
      (fst (checkAlerts scenarioRuntime scenarioConfig None scenarioA emptyState)))"
    by simp
  then have "a \<in> set (fst (checkAlerts scenarioRuntime scenarioConfig None scenarioA emptyState))"
    and "isPriceAlert a"
    by simp_all
  with price_alert_severity [of scenarioRuntime scenarioConfig None scenarioA emptyState] v
  have "alertType a = price_surge" and "severity a = low"
    by (auto simp: scenario_defs)
  with a v show ?thesis by simp
qed

lemma volume_severity_rule:
  "\<forall>x\<in>set (fst (checkAlerts rt d c tokens st)). alertType x = volume_spike \<longrightarrow>
      (severity x = high \<longleftrightarrow> alertValue x > 500)
    \<and> (severity x = medium \<longleftrightarrow> 300 < alertValue x \<and> alertValue x \<le> 500)
    \<and> (severity x = low \<longleftrightarrow> alertValue x \<le> 300)"
proof (intro ballI impI)
  fix x assume "x \<in> set (fst (checkAlerts rt d c tokens st))" and "alertType x = volume_spike"
  then obtain s' t where "x \<in> set (volumeAlerts rt (alertConfigOf d c) s' t)"
    using loop_volume_origin [of x rt "alertConfigOf d c" "[]" st tokens]
    by (auto simp: checkAlerts_fst)
  then show "(severity x = high \<longleftrightarrow> alertValue x > 500)
        \<and> (severity x = medium \<longleftrightarrow> 300 < alertValue x \<and> alertValue x \<le> 500)
        \<and> (severity x = low \<longleftrightarrow> alertValue x \<le> 300)"
    by (rule volumeAlerts_bands)
qed

lemma scenario_spike:
  assumes "distinct (map address tokensA)"
    and "tA \<in> set (processed (alertConfigOf d cA) tokensA)"
    and "address tA = a" and "volume24h tA = 1000000"
    and "address tB = a" and "volume24h tB = 4000000"
    and "\<not> skipped (alertConfigOf d cB) tB"
    and "volumeSpikeThreshold (alertConfigOf d cB) = 200"
    and "numSub rt 4000000 1000000 = 3000000"
    and "numDiv rt 3000000 1000000 = 3"
    and "numMul rt 3 100 = 300"
  shows "lastVolumes (snd (checkAlerts rt d cA tokensA stA)) a = Some 1000000
       \<and> map (\<lambda>x. (alertSymbol x, alertValue x, severity x))
           (filter (\<lambda>x. alertType x = volume_spike)
              (fst (checkAlerts rt d cB [tB] (snd (checkAlerts rt d cA tokensA stA)))))
         = [(symbol tB, 300, low)]"
proof -
  let ?st1 = "snd (checkAlerts rt d cA tokensA stA)"
  have dp: "distinct (map address (processed (alertConfigOf d cA) tokensA))"
    using assms(1) by (rule distinct_processed)
  have "lastVolumes ?st1 (address tA) = Some (volume24h tA)"
    using fold_update_hit [OF dp assms(2)] by (simp add: checkAlerts_snd)
  then have prev: "lastVolumes ?st1 a = Some 1000000"
    using assms(3,4) by simp
  have "filter (\<lambda>x. alertType x = volume_spike) (fst (checkAlerts rt d cB [tB] ?st1))
        = volumeAlerts rt (alertConfigOf d cB) ?st1 tB"
    using assms(7)
    by (simp add: checkAlerts_fst checkToken_step filter_volume_tokenAlerts)
  moreover have "map (\<lambda>x. (alertSymbol x, alertValue x, severity x))
                   (volumeAlerts rt (alertConfigOf d cB) ?st1 tB) = [(symbol tB, 300, low)]"
    using prev assms(5,6,8,9,10,11) by (simp add: volumeAlerts_def Let_def)
  ultimately have spike: "map (\<lambda>x. (alertSymbol x, alertValue x, severity x))
           (filter (\<lambda>x. alertType x = volume_spike) (fst (checkAlerts rt d cB [tB] ?st1)))
         = [(symbol tB, 300, low)]"
    by simp
  show ?thesis by (rule conjI [OF prev spike])
qed

text \<open>
  C5. In every call and whatever the arithmetic, the severity of a \<open>volume_spike\<close> alert
  is high iff its value is strictly greater than 500, medium iff it is strictly greater
  than 300 and at most 500, and low iff it is at most 300. In the scenario, a first call
  processes a record with volume 1 000 000 at an address and so records that volume; a
  second call on the one record with volume 4 000 000 at the same address, with a spike
  threshold of 200, raises exactly one \<open>volume_spike\<close>, of value exactly 300 and severity
  low. The three operations of the scenario have integer results below \<open>2^53\<close>, which
  binary64 arithmetic gives exactly; the scenario is stated for a runtime that does.
\<close>

theorem scenario_volume_spike:
  "(\<forall>x\<in>set (fst (checkAlerts rt d c tokens st)). alertType x = volume_spike \<longrightarrow>
       (severity x = high \<longleftrightarrow> alertValue x > 500)
     \<and> (severity x = medium \<longleftrightarrow> 300 < alertValue x \<and> alertValue x \<le> 500)
     \<and> (severity x = low \<longleftrightarrow> alertValue x \<le> 300))
   \<and> (distinct (map address tokensA)
       \<and> tA \<in> set (processed (alertConfigOf d cA) tokensA)
       \<and> address tA = a \<and> volume24h tA = 1000000
       \<and> address tB = a \<and> volume24h tB = 4000000
       \<and> \<not> skipped (alertConfigOf d cB) tB
       \<and> volumeSpikeThreshold (alertConfigOf d cB) = 200
       \<and> numSub rt 4000000 1000000 = 3000000
       \<and> numDiv rt 3000000 1000000 = 3
       \<and> numMul rt 3 100 = 300
       \<longrightarrow> lastVolumes (snd (checkAlerts rt d cA tokensA stA)) a = Some 1000000
         \<and> map (\<lambda>x. (alertSymbol x, alertValue x, severity x))
             (filter (\<lambda>x. alertType x = volume_spike)
                (fst (checkAlerts rt d cB [tB] (snd (checkAlerts rt d cA tokensA stA)))))
           = [(symbol tB, 300, low)])"
proof (rule conjI [OF volume_severity_rule], rule impI)
  assume h: "distinct (map address tokensA)
       \<and> tA \<in> set (processed (alertConfigOf d cA) tokensA)
       \<and> address tA = a \<and> volume24h tA = 1000000
       \<and> address tB = a \<and> volume24h tB = 4000000
       \<and> \<not> skipped (alertConfigOf d cB) tB
       \<and> volumeSpikeThreshold (alertConfigOf d cB) = 200
       \<and> numSub rt 4000000 1000000 = 3000000
       \<and> numDiv rt 3000000 1000000 = 3
       \<and> numMul rt 3 100 = 300"
  show "lastVolumes (snd (checkAlerts rt d cA tokensA stA)) a = Some 1000000
         \<and> map (\<lambda>x. (alertSymbol x, alertValue x, severity x))
             (filter (\<lambda>x. alertType x = volume_spike)
                (fst (checkAlerts rt d cB [tB] (snd (checkAlerts rt d cA tokensA stA)))))
           = [(symbol tB, 300, low)]"
    by (rule scenario_spike [where tA = tA]) (use h in simp_all)
qed

text \<open>
  Scenario B of the specification: scenario A from the empty state, then \<open>ETH\<close> with volume
  4 000 000, in the binary64 arithmetic of the scenario runtime; and a spike of 900
  percent, which is of high severity.
\<close>

theorem scenario_volume_spike_witness:
  "numSub scenarioRuntime 4000000 1000000 = 3000000
   \<and> numDiv scenarioRuntime 3000000 1000000 = 3
   \<and> numMul scenarioRuntime 3 100 = 300
   \<and> lastVolumes (snd (checkAlerts scenarioRuntime scenarioConfig None scenarioA emptyState)) ''0x1''
     = Some 1000000
   \<and> map (\<lambda>x. (alertSymbol x, alertValue x, severity x))
       (filter (\<lambda>x. alertType x = volume_spike)
          (fst (checkAlerts scenarioRuntime scenarioConfig None
                  [mkToken ''ETH'' ''0x1'' 3000 0 4000000 True]
                  (snd (checkAlerts scenarioRuntime scenarioConfig None scenarioA emptyState)))))
     = [(''ETH'', 300, low)]
   \<and> map (\<lambda>x. (alertSymbol x, alertValue x, severity x))
       (filter (\<lambda>x. alertType x = volume_spike)
          (fst (checkAlerts scenarioRuntime scenarioConfig (Some noWatchlist) (tl spikeBatch)
                  spikeState)))
     = [(''DOGE'', 900, high)]"
proof -
  note claim = scenario_volume_spike [where rt = scenarioRuntime and d = scenarioConfig
      and c = "Some noWatchlist" and tokens = "tl spikeBatch" and st = spikeState
      and tokensA = scenarioA and cA = None and stA = emptyState
      and tA = "mkToken ''ETH'' ''0x1'' 3000 (62 / 10) 1000000 True"
      and tB = "mkToken ''ETH'' ''0x1'' 3000 0 4000000 True" and cB = None and a = "''0x1''"]
  have "map (\<lambda>x. (alertSymbol x, alertValue x))
       (filter (\<lambda>x. alertType x = volume_spike)
          (fst (checkAlerts scenarioRuntime scenarioConfig (Some noWatchlist) (tl spikeBatch)
                  spikeState)))
     = [(''DOGE'', 900)]"
    by (simp add: scenario_defs2 noWatchlist_def)
  then obtain x where x: "filter (\<lambda>x. alertType x = volume_spike)
          (fst (checkAlerts scenarioRuntime scenarioConfig (Some noWatchlist) (tl spikeBatch)
                  spikeState)) = [x]"
    and v: "alertSymbol x = ''DOGE''" "alertValue x = 900"
    by auto
  from x have "x \<in> set (filter (\<lambda>x. alertType x = volume_spike)
          (fst (checkAlerts scenarioRuntime scenarioConfig (Some noWatchlist) (tl spikeBatch)
                  spikeState)))"
    by simp
  then have xin: "x \<in> set (fst (checkAlerts scenarioRuntime scenarioConfig (Some noWatchlist)
                  (tl spikeBatch) spikeState))"
    and xty: "alertType x = volume_spike"
    by simp_all
  have "severity x = high"
    using xin xty v claim [THEN conjunct1] by auto
  with x v have hi: "map (\<lambda>x. (alertSymbol x, alertValue x, severity x))
       (filter (\<lambda>x. alertType x = volume_spike)
          (fst (checkAlerts scenarioRuntime scenarioConfig (Some noWatchlist) (tl spikeBatch)
                  spikeState)))
     = [(''DOGE'', 900, high)]"
    by simp
  have d: "distinct (map address scenarioA)" by (simp add: scenarioA_def mkToken_def)
  have m: "mkToken ''ETH'' ''0x1'' 3000 (62 / 10) 1000000 True
           \<in> set (processed (alertConfigOf scenarioConfig None) scenarioA)"
    by (simp add: scenario_defs)
  have s: "\<not> skipped (alertConfigOf scenarioConfig None) (mkToken ''ETH'' ''0x1'' 3000 0 4000000 True)"
    by (simp add: scenario_defs)
  have th: "volumeSpikeThreshold (alertConfigOf scenarioConfig None) = 200"
    by (simp add: scenario_defs)
  have a1: "numSub scenarioRuntime 4000000 1000000 = 3000000"
    and a2: "numDiv scenarioRuntime 3000000 1000000 = 3"
    and a3: "numMul scenarioRuntime 3 100 = 300"
    by (simp_all add: scenarioRuntime_def rounding_defs)
  have f: "address (mkToken ''ETH'' ''0x1'' 3000 (62 / 10) 1000000 True) = ''0x1''"
    "volume24h (mkToken ''ETH'' ''0x1'' 3000 (62 / 10) 1000000 True) = 1000000"
    "address (mkToken ''ETH'' ''0x1'' 3000 0 4000000 True) = ''0x1''"
    "volume24h (mkToken ''ETH'' ''0x1'' 3000 0 4000000 True) = 4000000"
    by (simp_all add: mkToken_def)
  from claim [THEN conjunct2] d m f s th a1 a2 a3
  have "lastVolumes (snd (checkAlerts scenarioRuntime scenarioConfig None scenarioA emptyState)) ''0x1''
     = Some 1000000
   \<and> map (\<lambda>x. (alertSymbol x, alertValue x, severity x))
       (filter (\<lambda>x. alertType x = volume_spike)
          (fst (checkAlerts scenarioRuntime scenarioConfig None
                  [mkToken ''ETH'' ''0x1'' 3000 0 4000000 True]
                  (snd (checkAlerts scenarioRuntime scenarioConfig None scenarioA emptyState)))))
     = [(''ETH'', 300, low)]"
    by (simp add: mkToken_def)
  with a1 a2 a3 hi show ?thesis by blast
qed

section \<open>The snapshot\<close>

lemma foldl_numAdd:
  "foldl (numAdd rt) a (map f xs) = foldl (\<lambda>sum t. numAdd rt sum (f t)) a xs"
  by (induction xs arbitrary: a) simp_all

lemma foldl_exact:
  "exactFrom rt s xs \<Longrightarrow> foldl (numAdd rt) s xs = s + sum_list xs"
proof (induction xs arbitrary: s)
  case Nil
  then show ?case by simp
next
  case (Cons x xs)
  then have step: "numAdd rt s x = s + x" and rest: "exactFrom rt (s + x) xs" by simp_all
  have "foldl (numAdd rt) s (x # xs) = foldl (numAdd rt) (s + x) xs" by (simp add: step)
  also have "\<dots> = (s + x) + sum_list xs" by (rule Cons.IH [OF rest])
  finally show ?case by simp
qed

lemma totalVolume_eq:
  "totalVolume24h (getMarketSnapshot rt config allTokens)
   = roundedSum rt (map volume24h (filter (\<lambda>t. volume24h t > 0) allTokens))"
  by (simp add: getMarketSnapshot_def Let_def roundedSum_def foldl_numAdd)

lemma no_active:
  "(\<forall>t\<in>set allTokens. volume24h t = 0) \<Longrightarrow> filter (\<lambda>t. volume24h t > 0) allTokens = []"
  by (induction allTokens) simp_all

lemma set_insortCmp: "set (insortCmp cmp x xs) = insert x (set xs)"
  by (induction xs) auto

lemma set_sortCmp: "set (sortCmp cmp xs) = set xs"
  by (induction xs) (simp_all add: sortCmp_def set_insortCmp)

lemma length_insortCmp: "length (insortCmp cmp x xs) = Suc (length xs)"
  by (induction xs) simp_all

lemma length_sortCmp: "length (sortCmp cmp xs) = length xs"
  by (induction xs) (simp_all add: sortCmp_def length_insortCmp)

lemma sorted_insortCmp:
  fixes k :: "'a \<Rightarrow> real"
  assumes "sorted_wrt (\<lambda>a b. k a \<le> k b) xs"
  shows "sorted_wrt (\<lambda>a b. k a \<le> k b) (insortCmp (\<lambda>a b. k a - k b) x xs)"
  using assms
proof (induction xs)
  case Nil
  then show ?case by simp
next
  case (Cons y ys)
  show ?case
  proof (cases "k x - k y \<le> 0")
    case True
    with Cons.prems show ?thesis by fastforce
  next
    case False
    with Cons show ?thesis by (auto simp: set_insortCmp)
  qed
qed

lemma sorted_sortCmp:
  fixes k :: "'a \<Rightarrow> real"
  shows "sorted_wrt (\<lambda>a b. k a \<le> k b) (sortCmp (\<lambda>a b. k a - k b) xs)"
  by (induction xs) (simp_all add: sortCmp_def sorted_insortCmp)

lemma sorted_sortCmp_desc:
  fixes k :: "'a \<Rightarrow> real"
  shows "sorted_wrt (\<lambda>a b. k a \<ge> k b) (sortCmp (\<lambda>a b. k b - k a) xs)"
  using sorted_sortCmp [of "\<lambda>t. - k t" xs] by simp

lemma sorted_wrt_take: "sorted_wrt P xs \<Longrightarrow> sorted_wrt P (take n xs)"
  by (induction xs arbitrary: n) (auto simp: take_Cons' dest: in_set_takeD)

text \<open>
  C6. The claim is right and the code misses it. The snapshot's watchlist view is drawn
  from the full record list and upper-cases the symbol of each record, but compares it
  with the configured entries as they are written: the record \<open>eth\<close> is in the view under
  the entry \<open>ETH\<close>, and the record \<open>ETH\<close>, of volume 0, is not in the view under the entry
  \<open>eth\<close>, although the two are equal once both are uppercased.
\<close>

theorem snapshot_watchlist_lowercase_entry:
  "''ETH'' \<in> set (watchlist scenarioConfig)
   \<and> mkToken ''eth'' ''0x1'' 3000 0 0 True
     \<in> set (snapWatchlist (getMarketSnapshot scenarioRuntime scenarioConfig
                              [mkToken ''eth'' ''0x1'' 3000 0 0 True]))
   \<and> watchlist lowerConfig = [''eth'']
   \<and> toUpperCase (symbol (mkToken ''ETH'' ''0x1'' 3000 0 0 True))
     \<in> toUpperCase ` set (watchlist lowerConfig)
   \<and> mkToken ''ETH'' ''0x1'' 3000 0 0 True
     \<notin> set (snapWatchlist (getMarketSnapshot scenarioRuntime lowerConfig
                              [mkToken ''ETH'' ''0x1'' 3000 0 0 True]))"
  by (simp add: getMarketSnapshot_def Let_def toUpperCase_def toUpperChar_def lowerConfig_def
      scenarioConfig_def mkToken_def)

text \<open>
  C7, as amended. The snapshot's \<open>totalVolume24h\<close> is the sum of \<open>volume24h\<close> over the
  records with \<open>volume24h > 0\<close> as binary64 addition accumulates it, from 0 and in batch
  order; it is the exact sum whenever no addition of that accumulation rounds; and it is 0
  for the empty batch and for a batch whose records all have volume 0.
\<close>

theorem snapshot_total_volume:
  "totalVolume24h (getMarketSnapshot rt config allTokens)
     = roundedSum rt (map volume24h (filter (\<lambda>t. volume24h t > 0) allTokens))
   \<and> (exactFrom rt 0 (map volume24h (filter (\<lambda>t. volume24h t > 0) allTokens)) \<longrightarrow>
        totalVolume24h (getMarketSnapshot rt config allTokens)
        = sum_list (map volume24h (filter (\<lambda>t. volume24h t > 0) allTokens)))
   \<and> (allTokens = [] \<longrightarrow> totalVolume24h (getMarketSnapshot rt config allTokens) = 0)
   \<and> ((\<forall>t\<in>set allTokens. volume24h t = 0)
        \<longrightarrow> totalVolume24h (getMarketSnapshot rt config allTokens) = 0)"
proof -
  have exact: "exactFrom rt 0 (map volume24h (filter (\<lambda>t. volume24h t > 0) allTokens)) \<longrightarrow>
        totalVolume24h (getMarketSnapshot rt config allTokens)
        = sum_list (map volume24h (filter (\<lambda>t. volume24h t > 0) allTokens))"
    using foldl_exact [of rt 0] by (simp add: totalVolume_eq roundedSum_def)
  have empty: "allTokens = [] \<longrightarrow> totalVolume24h (getMarketSnapshot rt config allTokens) = 0"
    by (simp add: totalVolume_eq roundedSum_def)
  have zero: "(\<forall>t\<in>set allTokens. volume24h t = 0)
        \<longrightarrow> totalVolume24h (getMarketSnapshot rt config allTokens) = 0"
    using no_active [of allTokens] by (simp add: totalVolume_eq roundedSum_def)
  show ?thesis by (rule conjI [OF totalVolume_eq conjI [OF exact conjI [OF empty zero]]])
qed

text \<open>
  C7 as stated fails where an addition rounds: of the volumes \<open>2^53\<close>, 1 and 1 the sum is
  \<open>2^53 + 2\<close>, and the total of the snapshot is \<open>2^53\<close>, each addition of 1 being rounded
  away.
\<close>

theorem snapshot_total_volume_counterexample:
  "sum_list (map volume24h (filter (\<lambda>t. volume24h t > 0) largeVolumes)) = 9007199254740994
   \<and> totalVolume24h (getMarketSnapshot scenarioRuntime scenarioConfig largeVolumes)
     = 9007199254740992"
  by (simp add: getMarketSnapshot_def Let_def largeVolumes_def mkToken_def scenarioRuntime_def
      rounding_defs)

text \<open>
  The amended C7 on scenario A, whose two additions are exact, on the empty batch and on
  a batch of one record of volume 0.
\<close>

theorem snapshot_total_volume_witness:
  "exactFrom scenarioRuntime 0 (map volume24h (filter (\<lambda>t. volume24h t > 0) scenarioA))
   \<and> totalVolume24h (getMarketSnapshot scenarioRuntime scenarioConfig scenarioA) = 1500000
   \<and> totalVolume24h (getMarketSnapshot scenarioRuntime scenarioConfig []) = 0
   \<and> volume24h (mkToken ''USDC'' ''0x3'' 1 0 0 False) = 0
   \<and> totalVolume24h (getMarketSnapshot scenarioRuntime scenarioConfig
                       [mkToken ''USDC'' ''0x3'' 1 0 0 False]) = 0"
proof -
  have e: "exactFrom scenarioRuntime 0 (map volume24h (filter (\<lambda>t. volume24h t > 0) scenarioA))"
    by (simp add: scenarioA_def mkToken_def scenarioRuntime_def rounding_defs)
  show ?thesis
    using e snapshot_total_volume [of scenarioRuntime scenarioConfig scenarioA]
      snapshot_total_volume [of scenarioRuntime scenarioConfig "[]"]
      snapshot_total_volume [of scenarioRuntime scenarioConfig "[mkToken ''USDC'' ''0x3'' 1 0 0 False]"]
    by (simp add: scenarioA_def mkToken_def)
qed

lemma in_top:
  "t \<in> set (take n (sortCmp cmp (filter P (filter Q ys)))) \<Longrightarrow> P t \<and> Q t \<and> t \<in> set ys"
  by (drule in_set_takeD) (simp add: set_sortCmp)

lemma topGainers_eq:
  "topGainers (getMarketSnapshot rt config allTokens)
   = take 10 (sortCmp (\<lambda>a b. priceChange24h b - priceChange24h a)
       (filter (\<lambda>t. priceChange24h t > 0) (filter (\<lambda>t. volume24h t > 0) allTokens)))"
  by (simp add: getMarketSnapshot_def Let_def)

lemma topLosers_eq:
  "topLosers (getMarketSnapshot rt config allTokens)
   = take 10 (sortCmp (\<lambda>a b. priceChange24h a - priceChange24h b)
       (filter (\<lambda>t. priceChange24h t < 0) (filter (\<lambda>t. volume24h t > 0) allTokens)))"
  by (simp add: getMarketSnapshot_def Let_def)

lemma gainers_members:
  "t \<in> set (topGainers (getMarketSnapshot rt config allTokens))
   \<Longrightarrow> priceChange24h t > 0 \<and> volume24h t > 0 \<and> t \<in> set allTokens"
  unfolding topGainers_eq by (rule in_top)

lemma losers_members:
  "t \<in> set (topLosers (getMarketSnapshot rt config allTokens))
   \<Longrightarrow> priceChange24h t < 0 \<and> volume24h t > 0 \<and> t \<in> set allTokens"
  unfolding topLosers_eq by (rule in_top)

lemma gainers_sorted:
  "sorted_wrt (\<lambda>a b. priceChange24h a \<ge> priceChange24h b)
     (topGainers (getMarketSnapshot rt config allTokens))"
  unfolding topGainers_eq by (rule sorted_wrt_take) (rule sorted_sortCmp_desc)

lemma losers_sorted:
  "sorted_wrt (\<lambda>a b. priceChange24h a \<le> priceChange24h b)
     (topLosers (getMarketSnapshot rt config allTokens))"
  unfolding topLosers_eq by (rule sorted_wrt_take) (rule sorted_sortCmp)

lemma top_lengths:
  "length (topGainers (getMarketSnapshot rt config allTokens)) \<le> 10"
  "length (topLosers (getMarketSnapshot rt config allTokens)) \<le> 10"
  unfolding topGainers_eq topLosers_eq by simp_all

text \<open>
  C8. Every record of \<open>topGainers\<close> has \<open>priceChange24h > 0\<close> and \<open>volume24h > 0\<close> and comes
  from the batch; the list is sorted by descending change and has at most 10 entries. Every
  record of \<open>topLosers\<close> has \<open>priceChange24h < 0\<close> and \<open>volume24h > 0\<close>; the list is sorted
  by ascending change, most negative first, and has at most 10 entries. A record with
  change 0 is in neither.
\<close>

theorem snapshot_gainers_losers:
  "(\<forall>t\<in>set (topGainers (getMarketSnapshot rt config allTokens)).
       priceChange24h t > 0 \<and> volume24h t > 0 \<and> t \<in> set allTokens)
   \<and> sorted_wrt (\<lambda>a b. priceChange24h a \<ge> priceChange24h b)
        (topGainers (getMarketSnapshot rt config allTokens))
   \<and> length (topGainers (getMarketSnapshot rt config allTokens)) \<le> 10
   \<and> (\<forall>t\<in>set (topLosers (getMarketSnapshot rt config allTokens)).
       priceChange24h t < 0 \<and> volume24h t > 0 \<and> t \<in> set allTokens)
   \<and> sorted_wrt (\<lambda>a b. priceChange24h a \<le> priceChange24h b)
        (topLosers (getMarketSnapshot rt config allTokens))
   \<and> length (topLosers (getMarketSnapshot rt config allTokens)) \<le> 10
   \<and> (\<forall>t. priceChange24h t = 0 \<longrightarrow>
         t \<notin> set (topGainers (getMarketSnapshot rt config allTokens))
       \<and> t \<notin> set (topLosers (getMarketSnapshot rt config allTokens)))"
proof -
  let ?G = "topGainers (getMarketSnapshot rt config allTokens)"
  let ?L = "topLosers (getMarketSnapshot rt config allTokens)"
  have g1: "\<forall>t\<in>set ?G. priceChange24h t > 0 \<and> volume24h t > 0 \<and> t \<in> set allTokens"
    using gainers_members by blast
  have l1: "\<forall>t\<in>set ?L. priceChange24h t < 0 \<and> volume24h t > 0 \<and> t \<in> set allTokens"
    using losers_members by blast
  have g2: "sorted_wrt (\<lambda>a b. priceChange24h a \<ge> priceChange24h b) ?G"
    by (rule gainers_sorted)
  have l2: "sorted_wrt (\<lambda>a b. priceChange24h a \<le> priceChange24h b) ?L"
    by (rule losers_sorted)
  have g3: "length ?G \<le> 10" and l3: "length ?L \<le> 10"
    by (rule top_lengths)+
  have z: "\<forall>t. priceChange24h t = 0 \<longrightarrow> t \<notin> set ?G \<and> t \<notin> set ?L"
  proof (intro allI impI conjI notI)
    fix t :: TokenMarketData assume "priceChange24h t = 0" and "t \<in> set ?G"
    then show False using gainers_members [of t rt config allTokens] by simp
  next
    fix t :: TokenMarketData assume "priceChange24h t = 0" and "t \<in> set ?L"
    then show False using losers_members [of t rt config allTokens] by simp
  qed
  show ?thesis
    by (rule conjI [OF g1 conjI [OF g2 conjI [OF g3 conjI [OF l1 conjI [OF l2 conjI [OF l3 z]]]]]])
qed

text \<open>
  C8 on six records: two gainers, two losers, one at change 0 and one gainer without
  volume.
\<close>

theorem snapshot_gainers_losers_witness:
  "map (\<lambda>t. (symbol t, priceChange24h t))
     (topGainers (getMarketSnapshot scenarioRuntime scenarioConfig movers)) = [(''C'', 7), (''A'', 2)]
   \<and> map (\<lambda>t. (symbol t, priceChange24h t))
       (topLosers (getMarketSnapshot scenarioRuntime scenarioConfig movers))
     = [(''B'', - 4), (''E'', - 1)]
   \<and> priceChange24h (mkToken ''D'' ''0xd'' 1 0 10 True) = 0
   \<and> mkToken ''D'' ''0xd'' 1 0 10 True
       \<notin> set (topGainers (getMarketSnapshot scenarioRuntime scenarioConfig movers))
   \<and> mkToken ''D'' ''0xd'' 1 0 10 True
       \<notin> set (topLosers (getMarketSnapshot scenarioRuntime scenarioConfig movers))"
proof -
  have g: "map (\<lambda>t. (symbol t, priceChange24h t))
     (topGainers (getMarketSnapshot scenarioRuntime scenarioConfig movers)) = [(''C'', 7), (''A'', 2)]"
    and l: "map (\<lambda>t. (symbol t, priceChange24h t))
       (topLosers (getMarketSnapshot scenarioRuntime scenarioConfig movers))
     = [(''B'', - 4), (''E'', - 1)]"
    by (simp_all add: getMarketSnapshot_def Let_def movers_def mkToken_def sortCmp_def)
  have d: "priceChange24h (mkToken ''D'' ''0xd'' 1 0 10 True) = 0" by (simp add: mkToken_def)
  from g l d snapshot_gainers_losers [of scenarioRuntime scenarioConfig movers]
  show ?thesis by blast
qed

section \<open>The price lookup\<close>

lemma find_first:
  "(\<forall>u\<in>set before. \<not> P u) \<Longrightarrow> P t \<Longrightarrow> find P (before @ t # after) = Some t"
  by (induction before) simp_all

text \<open>
  C10. \<^verbatim>\<open>getTokenPrice\<close> returns \<^verbatim>\<open>null\<close> exactly when no record's uppercased symbol
  equals the uppercased query, or the first record that matches has \<open>priceUsd\<close> 0: a
  \<^verbatim>\<open>null\<close> does not tell an unknown symbol from a token priced at 0.
\<close>

theorem getTokenPrice_null:
  "getTokenPrice symb allTokens = None
   \<longleftrightarrow> (\<forall>t\<in>set allTokens. toUpperCase (symbol t) \<noteq> toUpperCase symb)
     \<or> (\<exists>before t after. allTokens = before @ t # after
           \<and> (\<forall>u\<in>set before. toUpperCase (symbol u) \<noteq> toUpperCase symb)
           \<and> toUpperCase (symbol t) = toUpperCase symb \<and> priceUsd t = 0)"
proof (cases "find (\<lambda>t. toUpperCase (symbol t) = toUpperCase symb) allTokens")
  case None
  then have "\<forall>t\<in>set allTokens. toUpperCase (symbol t) \<noteq> toUpperCase symb"
    by (simp add: find_None_iff)
  with None show ?thesis by (simp add: getTokenPrice_def)
next
  case (Some t)
  then obtain i where i: "i < length allTokens" "toUpperCase (symbol (allTokens ! i)) = toUpperCase symb"
    "t = allTokens ! i" "\<forall>j<i. toUpperCase (symbol (allTokens ! j)) \<noteq> toUpperCase symb"
    by (auto simp: find_Some_iff)
  have split: "allTokens = take i allTokens @ t # drop (Suc i) allTokens"
    using i(1,3) by (simp add: id_take_nth_drop)
  have pre: "\<forall>u\<in>set (take i allTokens). toUpperCase (symbol u) \<noteq> toUpperCase symb"
    using i(1,4) by (auto simp: in_set_conv_nth)
  have match: "toUpperCase (symbol t) = toUpperCase symb" using i(2,3) by simp
  have tin: "t \<in> set allTokens" using i(1,3) by simp
  have uniq: "t' = t" if "allTokens = before @ t' # after"
      "\<forall>u\<in>set before. toUpperCase (symbol u) \<noteq> toUpperCase symb"
      "toUpperCase (symbol t') = toUpperCase symb" for before t' after
    using that Some find_first [of before "\<lambda>t. toUpperCase (symbol t) = toUpperCase symb" t' after]
    by simp
  show ?thesis
  proof
    assume "getTokenPrice symb allTokens = None"
    with Some have "priceUsd t = 0" by (simp add: getTokenPrice_def split: if_splits)
    with split pre match show "(\<forall>t\<in>set allTokens. toUpperCase (symbol t) \<noteq> toUpperCase symb)
     \<or> (\<exists>before t after. allTokens = before @ t # after
           \<and> (\<forall>u\<in>set before. toUpperCase (symbol u) \<noteq> toUpperCase symb)
           \<and> toUpperCase (symbol t) = toUpperCase symb \<and> priceUsd t = 0)"
      by blast
  next
    assume "(\<forall>t\<in>set allTokens. toUpperCase (symbol t) \<noteq> toUpperCase symb)
     \<or> (\<exists>before t after. allTokens = before @ t # after
           \<and> (\<forall>u\<in>set before. toUpperCase (symbol u) \<noteq> toUpperCase symb)
           \<and> toUpperCase (symbol t) = toUpperCase symb \<and> priceUsd t = 0)"
    with tin match have "priceUsd t = 0" using uniq by blast
    with Some show "getTokenPrice symb allTokens = None" by (simp add: getTokenPrice_def)
  qed
qed

text \<open>
  C10 on the empty batch, on a batch whose first match is priced at 0 (a later match is
  not), and on a batch whose match has a price.
\<close>

theorem getTokenPrice_null_witness:
  "getTokenPrice ''eth'' [] = None
   \<and> getTokenPrice ''eth'' [mkToken ''STRK'' ''0x2'' 1 0 10 True, mkToken ''ETH'' ''0x1'' 0 0 10 True,
                            mkToken ''Eth'' ''0x7'' 5 0 10 True] = None
   \<and> getTokenPrice ''eth'' [mkToken ''STRK'' ''0x2'' 1 0 10 True, mkToken ''ETH'' ''0x1'' 3000 0 10 True]
       = Some 3000"
proof -
  have a: "getTokenPrice ''eth'' [] = None"
    using getTokenPrice_null [of "''eth''" "[]"] by simp
  have "[mkToken ''STRK'' ''0x2'' 1 0 10 True, mkToken ''ETH'' ''0x1'' 0 0 10 True,
         mkToken ''Eth'' ''0x7'' 5 0 10 True]
        = [mkToken ''STRK'' ''0x2'' 1 0 10 True] @ mkToken ''ETH'' ''0x1'' 0 0 10 True
            # [mkToken ''Eth'' ''0x7'' 5 0 10 True]
        \<and> (\<forall>u\<in>set [mkToken ''STRK'' ''0x2'' 1 0 10 True].
              toUpperCase (symbol u) \<noteq> toUpperCase ''eth'')
        \<and> toUpperCase (symbol (mkToken ''ETH'' ''0x1'' 0 0 10 True)) = toUpperCase ''eth''
        \<and> priceUsd (mkToken ''ETH'' ''0x1'' 0 0 10 True) = 0"
    by (simp add: mkToken_def toUpperCase_def toUpperChar_def)
  then have b: "getTokenPrice ''eth'' [mkToken ''STRK'' ''0x2'' 1 0 10 True,
      mkToken ''ETH'' ''0x1'' 0 0 10 True, mkToken ''Eth'' ''0x7'' 5 0 10 True] = None"
    using getTokenPrice_null [of "''eth''" "[mkToken ''STRK'' ''0x2'' 1 0 10 True,
      mkToken ''ETH'' ''0x1'' 0 0 10 True, mkToken ''Eth'' ''0x7'' 5 0 10 True]"]
    by blast
  have c: "getTokenPrice ''eth'' [mkToken ''STRK'' ''0x2'' 1 0 10 True,
      mkToken ''ETH'' ''0x1'' 3000 0 10 True] = Some 3000"
    by (simp add: getTokenPrice_def mkToken_def toUpperCase_def toUpperChar_def)
  from a b c show ?thesis by blast
qed

section \<open>The report\<close>

lemma foldl_pushByType:
  "foldl pushByType m alerts ty
   = (if alertsOfType ty alerts = [] then m ty
      else Some (groupOf (m ty) @ alertsOfType ty alerts))"
proof (induction alerts arbitrary: m)
  case Nil
  then show ?case by (simp add: alertsOfType_def)
next
  case (Cons a as)
  show ?case
  proof (cases "alertType a = ty")
    case True
    then have "pushByType m a ty = Some (groupOf (m ty) @ [a])"
      by (simp add: pushByType_def groupOf_def split: option.splits)
    with True show ?thesis
      by (simp add: Cons.IH alertsOfType_def groupOf_def)
  next
    case False
    then have "pushByType m a ty = m ty"
      by (simp add: pushByType_def split: option.splits)
    with False show ?thesis
      by (simp add: Cons.IH alertsOfType_def)
  qed
qed

lemma byType_hasLength:
  "hasLength (foldl pushByType Map.empty alerts ty) \<longleftrightarrow> alertsOfType ty alerts \<noteq> []"
  by (simp add: foldl_pushByType hasLength_def groupOf_def)

lemma byType_groupOf:
  "groupOf (foldl pushByType Map.empty alerts ty) = alertsOfType ty alerts"
  by (simp add: foldl_pushByType groupOf_def)

lemma alertLines_sections:
  "alertLines rt alerts = reportPreamble rt @ concat (map (groupSection rt alerts) displayOrder)"
  by (simp add: alertLines_def Let_def byType_hasLength byType_groupOf groupSection_def
      displayOrder_def reportPreamble_def)

lemma header_not_preamble: "groupHeader ty \<notin> set (reportPreamble rt)"
  by (cases ty)
     (simp_all add: reportPreamble_def titleLine_def blankLine_def surgesHeader_def
        dropsHeader_def spikesHeader_def newTokensHeader_def)

lemma header_not_bullet: "groupHeader ty \<noteq> groupBullet rt ty' a"
  by (cases ty; cases ty')
     (simp_all add: surgeLine_def dropLine_def spikeLine_def newTokenLine_def surgesHeader_def
        dropsHeader_def spikesHeader_def newTokensHeader_def)

lemma header_inj: "groupHeader ty = groupHeader ty' \<longleftrightarrow> ty = ty'"
  by (cases ty; cases ty')
     (simp_all add: surgesHeader_def dropsHeader_def spikesHeader_def newTokensHeader_def)

lemma header_not_blank: "groupHeader ty \<noteq> blankLine"
  by (cases ty)
     (simp_all add: blankLine_def surgesHeader_def dropsHeader_def spikesHeader_def
        newTokensHeader_def)

lemma header_in_section:
  "groupHeader ty \<in> set (groupSection rt alerts ty')
   \<longleftrightarrow> ty = ty' \<and> alertsOfType ty alerts \<noteq> []"
  by (auto simp: groupSection_def header_inj header_not_bullet header_not_blank)

lemma header_in_lines:
  "groupHeader ty \<in> set (alertLines rt alerts) \<longleftrightarrow> (\<exists>a\<in>set alerts. alertType a = ty)"
proof -
  have "groupHeader ty \<in> set (alertLines rt alerts)
        \<longleftrightarrow> ty \<in> set displayOrder \<and> alertsOfType ty alerts \<noteq> []"
    by (auto simp: alertLines_sections header_not_preamble header_in_section)
  also have "\<dots> \<longleftrightarrow> alertsOfType ty alerts \<noteq> []"
    by (cases ty) (simp_all add: displayOrder_def)
  also have "\<dots> \<longleftrightarrow> (\<exists>a\<in>set alerts. alertType a = ty)"
    by (simp add: alertsOfType_def filter_empty_conv)
  finally show ?thesis .
qed

lemma join_lines:
  "join sep (x # xs) = x @ concat (map (\<lambda>l. sep @ l) xs)"
  by (induction xs arbitrary: x) simp_all

lemma heading_eq: "groupHeader ty = reportHeading ty"
  by (cases ty) (simp_all add: surgesHeader_def dropsHeader_def spikesHeader_def newTokensHeader_def)

lemma bullet_eq: "alertType a = ty \<Longrightarrow> groupBullet rt ty a = reportBullet rt a"
  by (cases ty)
     (simp_all add: reportBullet_def surgeLine_def dropLine_def spikeLine_def newTokenLine_def)

lemma bullets_eq:
  "map (\<lambda>a. [CHR 0x0A] @ groupBullet rt ty a) (alertsOfType ty alerts)
   = map (\<lambda>a. [CHR 0x0A] @ reportBullet rt a) (alertsOfType ty alerts)"
  by (rule map_cong [OF refl]) (simp add: alertsOfType_def bullet_eq)

lemma section_text:
  "concat (map (\<lambda>l. [CHR 0x0A] @ l) (groupSection rt alerts ty)) = reportSection rt alerts ty"
proof (cases "alertsOfType ty alerts = []")
  case True
  then show ?thesis by (simp add: groupSection_def reportSection_def)
next
  case False
  have "concat (map (\<lambda>l. [CHR 0x0A] @ l) (groupSection rt alerts ty))
        = [CHR 0x0A] @ groupHeader ty
          @ concat (map (\<lambda>a. [CHR 0x0A] @ groupBullet rt ty a) (alertsOfType ty alerts))
          @ [CHR 0x0A]"
    using False by (simp add: groupSection_def blankLine_def comp_def)
  also have "\<dots> = reportSection rt alerts ty"
    using False by (simp only: bullets_eq heading_eq reportSection_def if_False)
  finally show ?thesis .
qed

lemma section_text_cons:
  "concat (map ((#) (CHR 0x0A)) (groupSection rt alerts ty)) = reportSection rt alerts ty"
  using section_text [of rt alerts ty] by simp

lemma formatAlerts_text:
  "formatAlerts rt alerts = reportText rt alerts"
proof (cases "alerts = []")
  case True
  then show ?thesis by (simp add: formatAlerts_def reportText_def)
next
  case False
  have "join [CHR 0x0A] (alertLines rt alerts)
        = titleLine
          @ concat (map (\<lambda>l. [CHR 0x0A] @ l)
               ([blankLine, ''Generated: '' @ toISOString rt (now rt), blankLine]
                @ concat (map (groupSection rt alerts) displayOrder)))"
    by (simp only: alertLines_sections reportPreamble_def append_Cons join_lines)
  also have "\<dots> = titleLine @ [CHR 0x0A, CHR 0x0A] @ ''Generated: '' @ toISOString rt (now rt)
          @ [CHR 0x0A]
          @ concat (map (\<lambda>l. [CHR 0x0A] @ l) (groupSection rt alerts price_surge))
          @ concat (map (\<lambda>l. [CHR 0x0A] @ l) (groupSection rt alerts price_drop))
          @ concat (map (\<lambda>l. [CHR 0x0A] @ l) (groupSection rt alerts volume_spike))
          @ concat (map (\<lambda>l. [CHR 0x0A] @ l) (groupSection rt alerts new_token))"
    by (simp add: displayOrder_def blankLine_def)
  also have "\<dots> = reportText rt alerts"
    using False by (simp add: section_text_cons reportText_def titleLine_def)
  finally show ?thesis using False by (simp add: formatAlerts_def)
qed

text \<open>
  C9. The text \<^verbatim>\<open>formatAlerts\<close> returns is, for the empty list, the one line
  \<open>No active alerts.\<close>, with no heading; for any other list, the title, a blank line, the
  line of the date and a blank line, and then, in the display order surge, drop, volume
  spike, new token, one section for each type of which the list holds an alert: the
  heading of the type, one bullet for each alert of the type in the order of the list,
  and a blank line. A type without an alert contributes nothing, so its heading is among
  the lines of the report iff the list holds an alert of the type. The function is total.
\<close>

theorem formatAlerts_groups:
  "formatAlerts rt alerts = reportText rt alerts
   \<and> formatAlerts rt [] = ''No active alerts.''
   \<and> (\<forall>ty. groupHeader ty \<in> set (alertLines rt alerts) \<longleftrightarrow> (\<exists>a\<in>set alerts. alertType a = ty))"
proof -
  have e: "formatAlerts rt [] = ''No active alerts.''"
    by (simp add: formatAlerts_def)
  have h: "\<forall>ty. groupHeader ty \<in> set (alertLines rt alerts) \<longleftrightarrow> (\<exists>a\<in>set alerts. alertType a = ty)"
    using header_in_lines by blast
  show ?thesis by (rule conjI [OF formatAlerts_text conjI [OF e h]])
qed

text \<open>
  C9 on a new-token alert followed by a price drop: the drop section comes first, and
  there is no heading for surges or volume spikes.
\<close>

theorem formatAlerts_groups_witness:
  "formatAlerts scenarioRuntime sampleAlerts
   = ''# '' @ [CHR 0xF0, CHR 0x9F, CHR 0x9A, CHR 0xA8] @ '' Smaira Alerts'' @ [CHR 0x0A]
     @ [CHR 0x0A]
     @ ''Generated: T'' @ [CHR 0x0A]
     @ [CHR 0x0A]
     @ ''## '' @ [CHR 0xF0, CHR 0x9F, CHR 0x93, CHR 0x89] @ '' Price Drops'' @ [CHR 0x0A]
     @ ''- **STRK**: #%'' @ [CHR 0x0A]
     @ [CHR 0x0A]
     @ ''## '' @ [CHR 0xF0, CHR 0x9F, CHR 0x86, CHR 0x95] @ '' New Tokens'' @ [CHR 0x0A]
     @ ''- New verified token: ETH (Ether)'' @ [CHR 0x0A]
   \<and> formatAlerts scenarioRuntime [] = ''No active alerts.''"
  using formatAlerts_groups [of scenarioRuntime sampleAlerts]
  by (simp add: reportText_def reportSection_def reportBullet_def alertsOfType_def
      sampleAlerts_def scenarioRuntime_def)

end
